theory Spec2Isabelle
  imports Complex_Main "HOL-Library.Word" "HOL-Library.AList"
begin

unbundle bit_operations_syntax

section \<open>Python strings\<close>

text \<open>
  A Python \<open>str\<close> is modelled as a \<open>string\<close>, one \<open>char\<close> per code point (code points
  below 256). \<open>is_space\<close> is \<open>str.isspace\<close> on that range: the characters that
  \<open>strip()\<close> and \<open>split()\<close> without arguments treat as whitespace.

  Two code points of that range, U+00B5 (micro sign) and U+00FF (y with diaeresis), have
  upper-case and title-case forms beyond code point 255 (U+039C and U+0178), which a
  \<open>char\<close> cannot hold. Text with one of them is outside the model wherever its case is
  changed; \<open>case_modelled\<close> says that a text has neither.
\<close>

definition is_space :: "char \<Rightarrow> bool" where
  "is_space c =
     (let n = (of_char c :: nat)
      in (9 \<le> n \<and> n \<le> 13) \<or> (28 \<le> n \<and> n \<le> 32) \<or> n = 133 \<or> n = 160)"

definition lstrip :: "string \<Rightarrow> string" where
  "lstrip s = dropWhile is_space s"

definition rstrip :: "string \<Rightarrow> string" where
  "rstrip s = rev (dropWhile is_space (rev s))"

text \<open>\<open>s.strip()\<close>\<close>

definition strip :: "string \<Rightarrow> string" where
  "strip s = rstrip (lstrip s)"

text \<open>\<open>s.startswith(p)\<close> and \<open>s.endswith(p)\<close>\<close>

definition startswith :: "string \<Rightarrow> string \<Rightarrow> bool" where
  "startswith s p = (take (length p) s = p)"

definition endswith :: "string \<Rightarrow> string \<Rightarrow> bool" where
  "endswith s p = (length p \<le> length s \<and> drop (length s - length p) s = p)"

text \<open>\<open>p in s\<close> on strings: \<open>p\<close> occurs in \<open>s\<close> as a contiguous run.\<close>

fun contains :: "string \<Rightarrow> string \<Rightarrow> bool" where
  "contains [] p = (p = [])"
| "contains (c # s) p = (startswith (c # s) p \<or> contains s p)"

text \<open>\<open>s.split()\<close>: the maximal runs of non-whitespace characters, in order.\<close>

fun split_acc :: "string \<Rightarrow> string \<Rightarrow> string list" where
  "split_acc w [] = (if w = [] then [] else [rev w])"
| "split_acc w (c # s) =
     (if is_space c then (if w = [] then split_acc [] s else rev w # split_acc [] s)
      else split_acc (c # w) s)"

definition split :: "string \<Rightarrow> string list" where
  "split s = split_acc [] s"

text \<open>\<open>sep.join(ws)\<close>\<close>

fun join :: "string \<Rightarrow> string list \<Rightarrow> string" where
  "join sep [] = []"
| "join sep [w] = w"
| "join sep (w # v # ws) = w @ sep @ join sep (v # ws)"

text \<open>\<open>s.replace(a, b)\<close> for a one-character \<open>a\<close>.\<close>

definition replace_char :: "char \<Rightarrow> string \<Rightarrow> string \<Rightarrow> string" where
  "replace_char a b s = concat (map (\<lambda>c. if c = a then b else [c]) s)"

definition case_modelled :: "string \<Rightarrow> bool" where
  "case_modelled s = (\<forall>c\<in>set s. c \<noteq> CHR 0xB5 \<and> c \<noteq> CHR 0xFF)"

text \<open>
  Case mapping, by the Unicode tables for the code points below 256. The upper-case
  letters are \<open>A\<close> to \<open>Z\<close> and U+00C0 to U+00DE without the multiplication sign U+00D7;
  each has its lower-case form 32 code points higher, and no other character of the
  range changes under \<open>lower()\<close>.
\<close>

definition is_upper :: "char \<Rightarrow> bool" where
  "is_upper c =
     (let n = (of_char c :: nat)
      in (65 \<le> n \<and> n \<le> 90) \<or> (192 \<le> n \<and> n \<le> 222 \<and> n \<noteq> 215))"

definition to_lower :: "char \<Rightarrow> char" where
  "to_lower c = (if is_upper c then char_of (of_char c + (32 :: nat)) else c)"

text \<open>
  The characters whose upper-case (and title-case) form is the single character 32 code
  points lower: \<open>a\<close> to \<open>z\<close> and U+00E0 to U+00FE without the division sign U+00F7.
\<close>

definition has_upper :: "char \<Rightarrow> bool" where
  "has_upper c =
     (let n = (of_char c :: nat)
      in (97 \<le> n \<and> n \<le> 122) \<or> (224 \<le> n \<and> n \<le> 254 \<and> n \<noteq> 247))"

text \<open>
  One character under \<open>upper()\<close>, and under the title-casing that \<open>capitalize()\<close>
  applies to the first character. They differ on the sharp s, U+00DF, only: \<open>SS\<close>
  against \<open>Ss\<close>.
\<close>

definition upper_char :: "char \<Rightarrow> string" where
  "upper_char c =
     (if c = CHR 0xDF then ''SS''
      else if has_upper c then [char_of (of_char c - (32 :: nat))]
      else [c])"

definition title_char :: "char \<Rightarrow> string" where
  "title_char c =
     (if c = CHR 0xDF then ''Ss''
      else if has_upper c then [char_of (of_char c - (32 :: nat))]
      else [c])"

text \<open>\<open>s.upper()\<close>\<close>

definition upper :: "string \<Rightarrow> string" where
  "upper s = concat (map upper_char s)"

text \<open>\<open>s.capitalize()\<close>: the first character title-cased, all the others lower-cased.\<close>

fun capitalize :: "string \<Rightarrow> string" where
  "capitalize [] = []"
| "capitalize (c # s) = title_char c @ map to_lower s"

section \<open>JSON values and dictionaries\<close>

text \<open>
  What \<open>json.loads\<close> produces and \<open>jsonify\<close> consumes. A float is carried as the
  number it stands for (no claim computes with one). A \<open>dict\<close> is an association list in insertion order; \<open>d[k] = v\<close> is
  \<open>AList.update k v d\<close> and \<open>d.get(k)\<close> is \<open>map_of d k\<close>.
\<close>

datatype json =
    JNull
  | JBool bool
  | JInt int
  | JFloat real
  | JStr string
  | JArr "json list"
  | JObj "(string \<times> json) list"

type_synonym dict = "(string \<times> json) list"

text \<open>\<open>d.get(k, dflt)\<close>\<close>

definition get_or :: "dict \<Rightarrow> string \<Rightarrow> json \<Rightarrow> json" where
  "get_or d k dflt = (case map_of d k of None \<Rightarrow> dflt | Some v \<Rightarrow> v)"

text \<open>\<open>bool(v)\<close>, as an \<open>if\<close> tests it.\<close>

definition truthy :: "json \<Rightarrow> bool" where
  "truthy v =
     (case v of
        JNull \<Rightarrow> False
      | JBool b \<Rightarrow> b
      | JInt i \<Rightarrow> i \<noteq> 0
      | JFloat x \<Rightarrow> x \<noteq> 0
      | JStr s \<Rightarrow> s \<noteq> []
      | JArr xs \<Rightarrow> xs \<noteq> []
      | JObj d \<Rightarrow> d \<noteq> [])"

text \<open>\<open>type(v).__name__\<close>, and the text of the \<open>AttributeError\<close> for a missing attribute.\<close>

definition type_name :: "json \<Rightarrow> string" where
  "type_name v =
     (case v of
        JNull \<Rightarrow> ''NoneType''
      | JBool b \<Rightarrow> ''bool''
      | JInt i \<Rightarrow> ''int''
      | JFloat x \<Rightarrow> ''float''
      | JStr s \<Rightarrow> ''str''
      | JArr xs \<Rightarrow> ''list''
      | JObj d \<Rightarrow> ''dict'')"

definition attribute_error :: "string \<Rightarrow> string \<Rightarrow> string" where
  \<open>attribute_error tname attr =
     [CHR 0x27] @ tname @ [CHR 0x27] @ '' object has no attribute '' @
     [CHR 0x27] @ attr @ [CHR 0x27]\<close>

section \<open>Response cleaning (\<open>AIEstimator._clean_response\<close>)\<close>

definition clean_response :: "string \<Rightarrow> string" where
  "clean_response response_text =
     (let t1 = (if startswith response_text ''```json'' then drop 7 response_text
                else response_text);
          t2 = (if startswith t1 ''```'' then drop 3 t1 else t1);
          t3 = (if endswith t2 ''```'' then take (length t2 - 3) t2 else t2)
      in strip t3)"

section \<open>The estimator (\<open>services/ai_services.py\<close>)\<close>

subsection \<open>The collaborators\<close>

text \<open>
  One call of \<open>client.models.generate_content\<close> either raises, with \<open>str(e)\<close> the
  text carried by \<open>ApiRaises\<close>, or returns a response whose \<open>.text\<close> is a string or
  \<open>None\<close>. A client answers a call from the model identifier, the prompt and the number
  of calls already made by this \<open>estimate_task\<close>.
\<close>

datatype api_outcome = ApiRaises string | ApiReturns "string option"

type_synonym client = "string option \<Rightarrow> string \<Rightarrow> nat \<Rightarrow> api_outcome"

text \<open>
  \<open>json.loads\<close>: the decoded value, a \<open>JSONDecodeError\<close> with its text, or another
  exception with its text.
\<close>

datatype loads_result = Decoded json | JSONDecodeError string | OtherError string

text \<open>
  The interpreter and library behaviour that \<open>estimate_task\<close> depends on:
  \<open>json.loads\<close>, the text of the \<open>TypeError\<close> that a decoded value which is not a
  \<open>dict\<close> raises, and \<open>datetime.now().isoformat()\<close>.
\<close>

record pyenv =
  json_loads :: "string \<Rightarrow> loads_result"
  type_error_text :: "json \<Rightarrow> string"
  now_isoformat :: string

text \<open>What is observable of a call from outside: requests sent and time slept.\<close>

datatype event = Request string | Sleep nat

subsection \<open>\<open>AIEstimator.__init__\<close>\<close>

record estimator =
  client :: "client option"
  model_id :: "string option"
  available :: bool

text \<open>
  \<open>getenv\<close> is \<open>os.getenv\<close>; \<open>make_client\<close> is \<open>genai.Client(api_key=...)\<close>, which
  returns a client (\<open>Inr\<close>) or raises (\<open>Inl\<close>).
\<close>

definition init :: "(string \<Rightarrow> string option) \<Rightarrow> (string \<Rightarrow> string + client) \<Rightarrow> estimator" where
  "init getenv make_client =
     (case getenv ''GEMINI_API_KEY'' of
        None \<Rightarrow> \<lparr>client = None, model_id = None, available = False\<rparr>
      | Some api_key \<Rightarrow>
          if api_key = [] then \<lparr>client = None, model_id = None, available = False\<rparr>
          else (case make_client api_key of
                  Inr c \<Rightarrow>
                    \<lparr>client = Some c,
                     model_id = Some (case getenv ''GEMINI_MODEL'' of
                                        None \<Rightarrow> ''gemini-2.0-flash-exp'' | Some m \<Rightarrow> m),
                     available = True\<rparr>
                | Inl e \<Rightarrow> \<lparr>client = None, model_id = None, available = False\<rparr>))"

subsection \<open>\<open>_create_prompt\<close>\<close>

definition prompt_head :: string where
  \<open>prompt_head =
     ''\<newline>'' @
     ''You are a software project management assistant specialized in Kanban-based workflows.\<newline>'' @
     ''Analyze the task below and return a STRICTLY VALID JSON response.\<newline>'' @
     ''\<newline>'' @
     ''TASK DESCRIPTION:\<newline>''\<close>

definition prompt_tail :: string where
  \<open>prompt_tail =
     ''\<newline>'' @
     ''\<newline>'' @
     ''Return JSON in this EXACT format:\<newline>'' @
     ''{\<newline>'' @
     ''    "title": "Short action-based title (3-6 words, start with verb like Fix, Add, Update, Create)",\<newline>'' @
     ''    "estimated_time": "string (e.g., '2 days', '1 week', '3 weeks')",\<newline>'' @
     ''    "priority": "string (Low/Medium/High)",\<newline>'' @
     ''    "complexity_level": "string (Low/Medium/High)",\<newline>'' @
     ''    "dependencies": ["array of prerequisite tasks or systems"],\<newline>'' @
     ''    "required_access": [\<newline>'' @
     ''        "Specific access requirement 1 (e.g., 'GitHub Repository Write Access')",\<newline>'' @
     ''        "Specific access requirement 2 (e.g., 'AWS Lambda Deployment Console')",\<newline>'' @
     ''        "Specific access requirement 3 (e.g., 'PostgreSQL Database Admin Rights')"\<newline>'' @
     ''    ],\<newline>'' @
     ''    "suggested_labels": ["array", "of", "labels"],\<newline>'' @
     ''    "reasoning": "MUST BE IN THIS EXACT FORMAT (see below)"\<newline>'' @
     ''}\<newline>'' @
     ''\<newline>'' @
     ''CRITICAL: The "reasoning" field MUST follow this EXACT structure:\<newline>'' @
     ''\<newline>'' @
     ''"Phase 1: Technical Breakdown\<newline>'' @
     ''Overview: [Write 3-4 concise technical sentences describing the approach, architecture, or key technologies involved. Be specific about the technical stack and implementation strategy.]\<newline>'' @
     ''\<newline>'' @
     ''Phase 1: [First milestone name]\<newline>'' @
     ''- [Specific task 1]\<newline>'' @
     ''- [Specific task 2]\<newline>'' @
     ''- [Specific task 3]\<newline>'' @
     ''\<newline>'' @
     ''Phase 2: [Second milestone name]\<newline>'' @
     ''- [Specific task 1]\<newline>'' @
     ''- [Specific task 2]\<newline>'' @
     ''- [Specific task 3]\<newline>'' @
     ''\<newline>'' @
     ''Phase 3: [Third milestone name]\<newline>'' @
     ''- [Specific task 1]\<newline>'' @
     ''- [Specific task 2]\<newline>'' @
     ''- [Specific task 3]"\<newline>'' @
     ''\<newline>'' @
     ''IMPORTANT for required_access:\<newline>'' @
     ''- Be specific about exact access needed for THIS TASK\<newline>'' @
     ''- Include service/tool name (GitHub, AWS, PostgreSQL, Slack, Telegram, etc.)\<newline>'' @
     ''- Specify access type (Read, Write, Admin, Console, etc.)\<newline>'' @
     ''\<newline>'' @
     ''Analyze the task and provide realistic, practical estimates.\<newline>''\<close>

definition create_prompt :: "string \<Rightarrow> string" where
  "create_prompt task_description = prompt_head @ task_description @ prompt_tail"

subsection \<open>\<open>_get_fallback_response\<close>\<close>

definition fallback_reasoning :: "string \<Rightarrow> string" where
  \<open>fallback_reasoning task_description =
     ''Phase 1: Technical Breakdown\<newline>'' @
     ''Overview: Manual technical analysis required for '' @ [CHR 0x27] @
     take 100 task_description @ ''...'' @ [CHR 0x27] @
     ''. Standard development workflow with modern tech stack. Requires environment setup, implementation, and deployment phases.\<newline>'' @
     ''\<newline>'' @
     ''Phase 1: Requirements Analysis and Setup\<newline>'' @
     ''- Review task requirements and define scope\<newline>'' @
     ''- Set up development environment and tools\<newline>'' @
     ''- Create project structure and initial configuration\<newline>'' @
     ''\<newline>'' @
     ''Phase 2: Core Implementation\<newline>'' @
     ''- Implement main functionality according to specifications\<newline>'' @
     ''- Write comprehensive unit and integration tests\<newline>'' @
     ''- Conduct code review and refactoring\<newline>'' @
     ''\<newline>'' @
     ''Phase 3: Testing and Deployment\<newline>'' @
     ''- Perform end-to-end testing in staging environment\<newline>'' @
     ''- Create deployment documentation and runbooks\<newline>'' @
     ''- Deploy to production with monitoring setup''\<close>

definition get_fallback_response :: "pyenv \<Rightarrow> string \<Rightarrow> string option \<Rightarrow> dict" where
  "get_fallback_response env task_description error =
     [(''success'', JBool False),
      (''error'', JStr (case error of
                         None \<Rightarrow> ''AI service temporarily unavailable''
                       | Some e \<Rightarrow> if e = [] then ''AI service temporarily unavailable'' else e)),
      (''title'', JStr (''Analysis: '' @ take 40 task_description @ ''...'')),
      (''estimated_time'', JStr ''1-2 weeks''),
      (''priority'', JStr ''Medium''),
      (''complexity_level'', JStr ''Medium''),
      (''dependencies'', JArr [JStr ''Initial requirements gathering'', JStr ''Technical review'']),
      (''required_access'',
         JArr [JStr ''Development Environment Access'',
               JStr ''Version Control System (GitHub/GitLab)'',
               JStr ''Testing Environment'']),
      (''suggested_labels'', JArr [JStr ''feature'', JStr ''development'', JStr ''needs-review'']),
      (''reasoning'', JStr (fallback_reasoning task_description)),
      (''fallback'', JBool True),
      (''timestamp'', JStr (now_isoformat env))]"

subsection \<open>\<open>_validate_and_format_response\<close>\<close>

text \<open>
  The three blocks of the source are the same code on three keys:
  \<open>if k in data: if isinstance(data[k], str): data[k] = [data[k]]\<close>.
\<close>

definition wrap_if_str :: "string \<Rightarrow> dict \<Rightarrow> dict" where
  "wrap_if_str k data =
     (case map_of data k of
        Some (JStr s) \<Rightarrow> AList.update k (JArr [JStr s]) data
      | _ \<Rightarrow> data)"

definition validate_and_format_response :: "dict \<Rightarrow> string \<Rightarrow> dict" where
  "validate_and_format_response data task_description =
     wrap_if_str ''suggested_labels''
       (wrap_if_str ''dependencies''
         (wrap_if_str ''required_access'' data))"

subsection \<open>\<open>estimate_task\<close>\<close>

text \<open>The text of the \<open>UnboundLocalError\<close> raised when \<open>response\<close> was never assigned.\<close>

definition unbound_response_error :: string where
  \<open>unbound_response_error =
     ''cannot access local variable '' @ [CHR 0x27] @ ''response'' @ [CHR 0x27] @
     '' where it is not associated with a value''\<close>

text \<open>\<open>self.client.models.generate_content(model=self.model_id, contents=prompt, ...)\<close>\<close>

definition generate_content :: "estimator \<Rightarrow> string \<Rightarrow> nat \<Rightarrow> api_outcome" where
  "generate_content est prompt n =
     (case client est of
        None \<Rightarrow> ApiRaises (attribute_error ''NoneType'' ''models'')
      | Some c \<Rightarrow> c (model_id est) prompt n)"

text \<open>\<open>"503" in error_str or "UNAVAILABLE" in error_str or "429" in error_str\<close>\<close>

definition is_transient :: "string \<Rightarrow> bool" where
  "is_transient error_str =
     (contains error_str ''503'' \<or> contains error_str ''UNAVAILABLE'' \<or>
      contains error_str ''429'')"

text \<open>
  The \<open>for attempt in range(max_retries)\<close> loop, by recursion on the attempts still to
  run. It ends by \<open>break\<close> with the response, by \<open>return\<close> with a fallback, or by
  running out of attempts, which leaves \<open>response\<close> unassigned.
\<close>

datatype loop_exit = Break "string option" | Return dict | Exhausted

fun retry_loop ::
  "pyenv \<Rightarrow> estimator \<Rightarrow> string \<Rightarrow> string \<Rightarrow> nat \<Rightarrow> nat list \<Rightarrow> nat \<Rightarrow> loop_exit \<times> event list"
where
  "retry_loop env est task_description prompt max_retries [] retry_delay = (Exhausted, [])"
| "retry_loop env est task_description prompt max_retries (attempt # rest) retry_delay =
     (case generate_content est prompt attempt of
        ApiReturns response \<Rightarrow> (Break response, [Request prompt])
      | ApiRaises error_str \<Rightarrow>
          if is_transient error_str then
            if int attempt < int max_retries - 1 then
              (case retry_loop env est task_description prompt max_retries rest (retry_delay * 2) of
                 (exit, events) \<Rightarrow> (exit, Request prompt # Sleep retry_delay # events))
            else
              (Return (get_fallback_response env task_description
                         (Some (''API Error: '' @ error_str))),
               [Request prompt])
          else
            (Return (get_fallback_response env task_description
                       (Some (''API Error: '' @ error_str))),
             [Request prompt]))"

text \<open>
  The body of the outer \<open>try\<close>. \<open>Inr\<close> is a value returned from inside it, \<open>Inl\<close> the
  text of an exception that leaves it: \<open>response.text.strip()\<close> on a \<open>None\<close> text, an
  exception of \<open>json.loads\<close> other than \<open>JSONDecodeError\<close>, or the \<open>TypeError\<close> of
  \<open>_validate_and_format_response\<close> and \<open>formatted_data["success"] = True\<close> on a
  decoded value that is not a \<open>dict\<close>.
\<close>

definition try_body ::
  "pyenv \<Rightarrow> estimator \<Rightarrow> string \<Rightarrow> string \<Rightarrow> (string + dict) \<times> event list"
where
  "try_body env est task_description prompt =
     (case retry_loop env est task_description prompt 3 [0..<3] 2 of
        (Return d, events) \<Rightarrow> (Inr d, events)
      | (Exhausted, events) \<Rightarrow> (Inl unbound_response_error, events)
      | (Break None, events) \<Rightarrow> (Inl (attribute_error ''NoneType'' ''strip''), events)
      | (Break (Some text), events) \<Rightarrow>
          (let response_text = clean_response (strip text)
           in case json_loads env response_text of
                Decoded estimate_data \<Rightarrow>
                  (case estimate_data of
                     JObj data \<Rightarrow>
                       (Inr (AList.update ''success'' (JBool True)
                               (validate_and_format_response data task_description)),
                        events)
                   | _ \<Rightarrow> (Inl (type_error_text env estimate_data), events))
              | JSONDecodeError je \<Rightarrow>
                  (Inr (get_fallback_response env task_description
                          (Some (''JSON Parse Error: '' @ je))),
                   events)
              | OtherError e \<Rightarrow> (Inl e, events)))"

definition estimate_task :: "pyenv \<Rightarrow> estimator \<Rightarrow> string \<Rightarrow> dict \<times> event list" where
  "estimate_task env est task_description =
     (if \<not> available est then (get_fallback_response env task_description None, [])
      else
        (let prompt = create_prompt task_description
         in case try_body env est task_description prompt of
              (Inr result, events) \<Rightarrow> (result, events)
            | (Inl e, events) \<Rightarrow>
                (get_fallback_response env task_description
                   (Some (''Unexpected Error: '' @ e)),
                 events)))"

section \<open>The estimate endpoint (\<open>ai_task_creator.py\<close>)\<close>

subsection \<open>Identifiers\<close>

text \<open>
  A 128-bit value (an MD5 digest, a UUID) written as 32 lower-case hexadecimal digits,
  most significant first: \<open>hexdigest()\<close> and \<open>UUID.hex\<close>.
\<close>

definition hex_digit :: "nat \<Rightarrow> char" where
  "hex_digit n = ''0123456789abcdef'' ! n"

definition hex_of :: "128 word \<Rightarrow> string" where
  "hex_of w = map (\<lambda>i. hex_digit (unat (drop_bit (4 * (31 - i)) w AND 15))) [0..<32]"

text \<open>\<open>str(u)\<close> for a UUID: the digits in groups of 8, 4, 4, 4 and 12.\<close>

definition uuid_str :: "128 word \<Rightarrow> string" where
  "uuid_str u =
     (let h = hex_of u
      in take 8 h @ ''-'' @ take 4 (drop 8 h) @ ''-'' @ take 4 (drop 12 h) @ ''-'' @
         take 4 (drop 16 h) @ ''-'' @ drop 20 h)"

text \<open>\<open>generate_ticket_number\<close>, from the value that \<open>uuid.uuid4()\<close> draws.\<close>

definition generate_ticket_number :: "128 word \<Rightarrow> string" where
  "generate_ticket_number u = ''TKT-'' @ upper (take 8 (uuid_str u))"

subsection \<open>\<open>generate_short_title\<close>\<close>

definition generate_short_title :: "string \<Rightarrow> nat \<Rightarrow> string" where
  "generate_short_title task max_words =
     (if task = [] then ''New Ticket''
      else
        (let task1 = strip (replace_char (CHR ''\<newline>'') '' '' task);
             words = split task1;
             short_title = join '' '' (take max_words words)
         in capitalize short_title))"

subsection \<open>\<open>get_ai_estimate\<close>\<close>

text \<open>
  What the handler takes from outside: \<open>hashlib.md5(s.encode()).digest()\<close> read as a
  number, the value drawn by \<open>uuid.uuid4()\<close> in this call, \<open>ai_estimator.estimate_task\<close>,
  and the text of the exception that \<open>v[:100]\<close> raises on a value that cannot be sliced.
\<close>

record handler_env =
  md5_digest :: "string \<Rightarrow> 128 word"
  uuid4 :: "128 word"
  estimate :: "string \<Rightarrow> dict"
  slice_error_text :: "json \<Rightarrow> string"

text \<open>\<open>if isinstance(v, str): v = [v]\<close>\<close>

definition listify :: "json \<Rightarrow> json" where
  "listify v = (case v of JStr s \<Rightarrow> JArr [JStr s] | _ \<Rightarrow> v)"

definition sliceable :: "json \<Rightarrow> bool" where
  "sliceable v = (case v of JStr s \<Rightarrow> True | JArr xs \<Rightarrow> True | _ \<Rightarrow> False)"

definition error_body :: "json \<Rightarrow> dict" where
  "error_body e = [(''success'', JBool False), (''error'', e)]"

text \<open>The \<open>response_data\<close> built when \<open>ai_response.get('success')\<close> is true.\<close>

definition response_data :: "handler_env \<Rightarrow> string \<Rightarrow> dict \<Rightarrow> dict" where
  "response_data h task_description ai_response =
     (let ticket_id = take 16 (hex_of (md5_digest h task_description));
          ticket_number = generate_ticket_number (uuid4 h);
          tags = listify (get_or ai_response ''suggested_labels'' (JArr []));
          access_required = listify (get_or ai_response ''required_access'' (JArr []));
          dependencies = listify (get_or ai_response ''dependencies'' (JArr []));
          title =
            (case map_of ai_response ''title'' of
               Some (JStr raw_title) \<Rightarrow>
                 if 3 \<le> length (split raw_title) \<and> length (split raw_title) \<le> 6
                 then strip raw_title
                 else generate_short_title task_description 6
             | _ \<Rightarrow> generate_short_title task_description 6)
      in [(''success'', JBool True),
          (''ticket_id'', JStr ticket_id),
          (''ticket_number'', JStr ticket_number),
          (''task'', JStr task_description),
          (''title'', JStr title),
          (''estimate'',
             JObj [(''estimated_time'', get_or ai_response ''estimated_time'' (JStr ''Unknown'')),
                   (''priority'', get_or ai_response ''priority'' (JStr ''Medium'')),
                   (''complexity_level'', get_or ai_response ''complexity_level'' (JStr ''Medium'')),
                   (''dependencies'', dependencies),
                   (''required_access'', access_required),
                   (''suggested_labels'', tags),
                   (''reasoning'', get_or ai_response ''reasoning'' (JStr []))])])"

text \<open>
  The handler, from the result of \<open>request.get_json()\<close> (\<open>Inl\<close> when that raises) to the
  JSON body and the HTTP status. Every exception inside it is caught by its
  \<open>except Exception\<close> and answered with status 500.
\<close>

definition get_ai_estimate :: "handler_env \<Rightarrow> string + json \<Rightarrow> dict \<times> nat" where
  "get_ai_estimate h request_json =
     (case request_json of
        Inl e \<Rightarrow> (error_body (JStr e), 500)
      | Inr data \<Rightarrow>
          (case data of
             JObj d \<Rightarrow>
               (case get_or d ''task'' (JStr []) of
                  JStr task \<Rightarrow>
                    (let task_description = strip task
                     in if task_description = []
                        then (error_body (JStr ''Task description is required''), 400)
                        else
                          (let ai_response = estimate h task_description;
                               reasoning = get_or ai_response ''reasoning'' (JStr [])
                           in if \<not> sliceable reasoning
                              then (error_body (JStr (slice_error_text h reasoning)), 500)
                              else if truthy (get_or ai_response ''success'' JNull)
                              then (response_data h task_description ai_response, 200)
                              else
                                (error_body
                                   (get_or ai_response ''error'' (JStr ''AI generation failed'')),
                                 500)))
                | v \<Rightarrow> (error_body (JStr (attribute_error (type_name v) ''strip'')), 500))
           | v \<Rightarrow> (error_body (JStr (attribute_error (type_name v) ''get'')), 500)))"

section \<open>Notions used by the properties\<close>

text \<open>A payload wrapped in a fenced code block, tagged \<open>json\<close> or untagged.\<close>

definition fence_json :: "string \<Rightarrow> string" where
  "fence_json s = ''```json'' @ CHR ''\<newline>'' # s @ CHR ''\<newline>'' # ''```''"

definition fence_plain :: "string \<Rightarrow> string" where
  "fence_plain s = ''```'' @ CHR ''\<newline>'' # s @ CHR ''\<newline>'' # ''```''"

text \<open>A field that holds a non-empty string, or a non-empty list.\<close>

definition populated_str :: "dict \<Rightarrow> string \<Rightarrow> bool" where
  "populated_str d k = (case map_of d k of Some (JStr s) \<Rightarrow> s \<noteq> [] | _ \<Rightarrow> False)"

definition populated_arr :: "dict \<Rightarrow> string \<Rightarrow> bool" where
  "populated_arr d k = (case map_of d k of Some (JArr xs) \<Rightarrow> xs \<noteq> [] | _ \<Rightarrow> False)"

text \<open>A complete fallback result: \<open>success\<close> is false and every content field is populated.\<close>

definition complete_fallback :: "dict \<Rightarrow> bool" where
  "complete_fallback r =
     (map_of r ''success'' = Some (JBool False) \<and>
      populated_str r ''error'' \<and>
      populated_str r ''title'' \<and>
      populated_str r ''estimated_time'' \<and>
      populated_str r ''priority'' \<and>
      populated_str r ''complexity_level'' \<and>
      populated_arr r ''dependencies'' \<and>
      populated_arr r ''required_access'' \<and>
      populated_arr r ''suggested_labels'' \<and>
      populated_str r ''reasoning'')"

text \<open>A result with its \<open>timestamp\<close> entry left out.\<close>

definition without_timestamp :: "dict \<Rightarrow> dict" where
  "without_timestamp d = filter (\<lambda>kv. fst kv \<noteq> ''timestamp'') d"

subsection \<open>Sample collaborators\<close>

text \<open>
  An environment whose \<open>json.loads\<close> decodes \<open>{}\<close> only; a client that fails \<open>k\<close> times
  with a 503 and then returns a fenced \<open>{}\<close> (or fails with \<open>e\<close> when \<open>e\<close> is not empty);
  an estimator constructed with that client.
\<close>

definition demo_env :: pyenv where
  "demo_env =
     \<lparr>json_loads =
        (\<lambda>s. if s = ''{}'' then Decoded (JObj []) else JSONDecodeError ''Expecting value''),
      type_error_text = (\<lambda>v. ''TypeError''),
      now_isoformat = ''2026-01-01T00:00:00''\<rparr>"

definition flaky_client :: "nat \<Rightarrow> string \<Rightarrow> client" where
  "flaky_client k e m p n =
     (if n < k then ApiRaises ''503 UNAVAILABLE''
      else if e = [] then ApiReturns (Some ''```json\<newline>{}\<newline>```'') else ApiRaises e)"

text \<open>
  A provider whose JSON has a \<open>fallback\<close> entry of its own: two 503 failures, then the
  text \<open>{"fallback": true}\<close>, with a \<open>json.loads\<close> that decodes this text.
\<close>

definition marker_env :: pyenv where
  \<open>marker_env =
     \<lparr>json_loads =
        (\<lambda>s. if s = ''{"fallback": true}'' then Decoded (JObj [(''fallback'', JBool True)])
             else JSONDecodeError ''Expecting value''),
      type_error_text = (\<lambda>v. ''TypeError''),
      now_isoformat = ''2026-01-01T00:00:00''\<rparr>\<close>

definition marker_client :: client where
  \<open>marker_client m p n =
     (if n < 2 then ApiRaises ''503 UNAVAILABLE''
      else ApiReturns (Some ''{"fallback": true}''))\<close>

definition demo_estimator :: "client \<Rightarrow> estimator" where
  "demo_estimator c =
     \<lparr>client = Some c, model_id = Some ''gemini-2.0-flash-exp'', available = True\<rparr>"

text \<open>
  A handler environment around an estimator, with a fixed digest and a fixed UUID draw.
\<close>

definition demo_handler :: "estimator \<Rightarrow> handler_env" where
  "demo_handler est =
     \<lparr>md5_digest = (\<lambda>s. 0x0123456789abcdeffedcba9876543210),
      uuid4 = 0xdeadbeef000040008000000000000001,
      estimate = (\<lambda>t. fst (estimate_task demo_env est t)),
      slice_error_text = (\<lambda>v. ''TypeError'')\<rparr>"

section \<open>Strings: basic facts\<close>

lemma startswith_iff: "startswith s p \<longleftrightarrow> (\<exists>r. s = p @ r)"
  unfolding startswith_def
  by (metis append_eq_conv_conj append_take_drop_id)

lemma endswith_iff: "endswith s p \<longleftrightarrow> (\<exists>r. s = r @ p)"
proof
  assume "endswith s p"
  then have "s = take (length s - length p) s @ p"
    unfolding endswith_def by (metis append_take_drop_id)
  then show "\<exists>r. s = r @ p" ..
next
  assume "\<exists>r. s = r @ p"
  then show "endswith s p" by (auto simp add: endswith_def)
qed

lemma newline_space: "is_space (CHR ''\<newline>'')"
  by (simp add: is_space_def)

lemma strip_pad:
  assumes a: "is_space a" and b: "is_space b"
  shows "strip (a # s @ [b]) = strip s"
proof (cases "\<forall>x\<in>set s. is_space x")
  case True
  have "lstrip s = []" using True by (simp add: lstrip_def dropWhile_eq_Nil_conv)
  moreover have "lstrip (a # s @ [b]) = []"
    using True a b by (simp add: lstrip_def dropWhile_eq_Nil_conv)
  ultimately show ?thesis by (simp add: strip_def)
next
  case False
  then obtain x where "x \<in> set s" "\<not> is_space x" by blast
  then have "dropWhile is_space (s @ [b]) = dropWhile is_space s @ [b]"
    by (simp add: dropWhile_append1)
  then show ?thesis using a b by (simp add: strip_def lstrip_def rstrip_def)
qed

section \<open>Response cleaning\<close>

lemma clean_fence_json: "clean_response (fence_json s) = strip s"
proof -
  have "clean_response (fence_json s) = strip (CHR ''\<newline>'' # s @ [CHR ''\<newline>''])"
    by (simp add: clean_response_def fence_json_def startswith_def endswith_def)
  then show ?thesis by (simp add: strip_pad newline_space)
qed

lemma clean_fence_plain: "clean_response (fence_plain s) = strip s"
proof -
  have "clean_response (fence_plain s) = strip (CHR ''\<newline>'' # s @ [CHR ''\<newline>''])"
    by (simp add: clean_response_def fence_plain_def startswith_def endswith_def)
  then show ?thesis by (simp add: strip_pad newline_space)
qed

lemma startswith_json_fence: "startswith s ''```json'' \<Longrightarrow> startswith s ''```''"
  by (auto simp add: startswith_iff)

lemma clean_unfenced:
  "\<not> startswith s ''```'' \<Longrightarrow> \<not> endswith s ''```'' \<Longrightarrow> clean_response s = strip s"
  using startswith_json_fence [of s] by (auto simp add: clean_response_def)

lemma drop_fence_prefix:
  "\<exists>pre. pre \<in> {[], ''```'', ''```json'', ''```json```''} \<and>
     t = pre @ (let t1 = (if startswith t ''```json'' then drop 7 t else t)
                in if startswith t1 ''```'' then drop 3 t1 else t1)"
proof (cases "startswith t ''```json''")
  case True
  then obtain r where r: "t = ''```json'' @ r" by (auto simp add: startswith_iff)
  show ?thesis
  proof (cases "startswith r ''```''")
    case True
    then obtain q where "r = ''```'' @ q" by (auto simp add: startswith_iff)
    with r have "t = ''```json```'' @ q" by simp
    then show ?thesis by (simp add: startswith_def)
  next
    case False
    with r show ?thesis by (simp add: startswith_def)
  qed
next
  case False
  show ?thesis
  proof (cases "startswith t ''```''")
    case True
    then obtain q where "t = ''```'' @ q" by (auto simp add: startswith_iff)
    with False show ?thesis by (simp add: startswith_def)
  next
    case F2: False
    with False show ?thesis by simp
  qed
qed

lemma drop_fence_suffix:
  "\<exists>suf. suf \<in> {[], ''```''} \<and>
     u = (if endswith u ''```'' then take (length u - 3) u else u) @ suf"
proof (cases "endswith u ''```''")
  case True
  then obtain r where "u = r @ ''```''" by (auto simp add: endswith_iff)
  then show ?thesis by (simp add: endswith_def)
next
  case False
  then show ?thesis by simp
qed

lemma clean_decomp:
  "\<exists>pre core suf. t = pre @ core @ suf \<and> pre \<in> {[], ''```'', ''```json'', ''```json```''} \<and>
     suf \<in> {[], ''```''} \<and> clean_response t = strip core"
proof -
  define u where "u = (let t1 = (if startswith t ''```json'' then drop 7 t else t)
                in if startswith t1 ''```'' then drop 3 t1 else t1)"
  define core where "core = (if endswith u ''```'' then take (length u - 3) u else u)"
  obtain pre where pre: "pre \<in> {[], ''```'', ''```json'', ''```json```''}" "t = pre @ u"
    using drop_fence_prefix [of t] unfolding u_def by blast
  obtain suf where suf: "suf \<in> {[], ''```''}" "u = core @ suf"
    using drop_fence_suffix [of u] unfolding core_def by blast
  have "clean_response t = strip core"
    by (simp add: clean_response_def core_def u_def Let_def)
  with pre suf show ?thesis by blast
qed

text \<open>
  C7, as stated, fails: a payload that is itself a fenced block loses its own fence when
  cleaned directly, and only the outer fence when cleaned in fenced form. Here the
  payload is the JSON-tagged fenced block around \<open>{}\<close>.
\<close>

theorem C7_fenced_payload_counterexample:
  "clean_response (fence_json ''```json\<newline>{}\<newline>```'') \<noteq> clean_response ''```json\<newline>{}\<newline>```''"
  by (simp add: clean_response_def fence_json_def startswith_def endswith_def strip_def
      lstrip_def rstrip_def is_space_def)

text \<open>
  C7, amended. For every payload \<open>s\<close>, cleaning either fenced form of \<open>s\<close> yields \<open>s\<close>
  without its surrounding whitespace; when \<open>s\<close> neither begins nor ends with three
  backticks, so does cleaning \<open>s\<close> itself, and the fenced forms are then cleaned to the
  same string as \<open>s\<close>, so they parse identically. On any text, \<open>_clean_response\<close> removes
  nothing but a leading fence (\<open>```json\<close>, \<open>```\<close>, or \<open>```json\<close> followed by \<open>```\<close>), a
  trailing \<open>```\<close>, and the whitespace around what remains.
\<close>

theorem C7_clean_response_fenced:
  "clean_response (fence_json s) = strip s \<and>
   clean_response (fence_plain s) = strip s \<and>
   (\<not> startswith s ''```'' \<and> \<not> endswith s ''```'' \<longrightarrow>
      clean_response (fence_json s) = clean_response s \<and>
      clean_response (fence_plain s) = clean_response s) \<and>
   (\<exists>pre core suf. s = pre @ core @ suf \<and>
      pre \<in> {[], ''```'', ''```json'', ''```json```''} \<and> suf \<in> {[], ''```''} \<and>
      clean_response s = strip core)"
  using clean_fence_json [of s] clean_fence_plain [of s] clean_unfenced [of s]
    clean_decomp [of s]
  by simp

theorem C7_clean_response_fenced_witness:
  "\<not> startswith ''{}'' ''```'' \<and> \<not> endswith ''{}'' ''```'' \<and>
   clean_response (fence_json ''{}'') = clean_response ''{}'' \<and>
   clean_response (fence_plain ''{}'') = clean_response ''{}''"
proof -
  have a: "\<not> startswith ''{}'' ''```''" by (simp add: startswith_def)
  have b: "\<not> endswith ''{}'' ''```''" by (simp add: endswith_def)
  from C7_clean_response_fenced [of "''{}''"] a b
  have "clean_response (fence_json ''{}'') = clean_response ''{}'' \<and>
        clean_response (fence_plain ''{}'') = clean_response ''{}''"
    by blast
  with a b show ?thesis by blast
qed

section \<open>The estimator: results and retries\<close>

lemma fallback_reasoning_nonempty: "fallback_reasoning t \<noteq> []"
  by (simp add: fallback_reasoning_def)

lemma fallback_complete: "complete_fallback (get_fallback_response env t e)"
  by (simp add: complete_fallback_def populated_str_def populated_arr_def
      get_fallback_response_def fallback_reasoning_nonempty split: option.split)

lemma fallback_markers:
  "map_of (get_fallback_response env t e) ''fallback'' = Some (JBool True)"
  "map_of (get_fallback_response env t e) ''timestamp'' = Some (JStr (now_isoformat env))"
  "map_of (get_fallback_response env t e) ''success'' = Some (JBool False)"
  by (simp_all add: get_fallback_response_def)

lemma attempts3: "[0..<3] = [0, 1, 2]"
  by (simp add: upt_rec)

lemma retry_loop_exit:
  "retry_loop env est t p 3 [0..<3] d = (x, ev) \<Longrightarrow>
     (\<exists>r. x = Break r) \<or> (\<exists>e. x = Return (get_fallback_response env t (Some e)))"
  by (auto simp add: attempts3 split: api_outcome.splits if_splits prod.splits)

lemma try_body_cases:
  "try_body env est t p = (x, ev) \<Longrightarrow>
     (\<exists>e. x = Inl e) \<or> (\<exists>e. x = Inr (get_fallback_response env t e)) \<or>
     (\<exists>d. x = Inr (AList.update ''success'' (JBool True) (validate_and_format_response d t)))"
  unfolding try_body_def
  apply (cases "retry_loop env est t p 3 [0..<3] 2")
  subgoal for y ev'
    using retry_loop_exit [of env est t p 2 y ev']
    by (auto simp add: Let_def split: loop_exit.splits option.splits loads_result.splits json.splits)
  done

lemma estimate_task_cases:
  "(\<exists>e. fst (estimate_task env est t) = get_fallback_response env t e) \<or>
   (\<exists>d. fst (estimate_task env est t) =
      AList.update ''success'' (JBool True) (validate_and_format_response d t))"
proof (cases "available est")
  case False
  then show ?thesis by (auto simp add: estimate_task_def)
next
  case True
  obtain x ev where b: "try_body env est t (create_prompt t) = (x, ev)"
    by (cases "try_body env est t (create_prompt t)")
  from try_body_cases [OF b] True b show ?thesis
    by (auto simp add: estimate_task_def)
qed

lemma update_success: "map_of (AList.update ''success'' (JBool True) d) ''success'' = Some (JBool True)"
  by (simp add: update_conv')

lemma map_of_wrap_if_str:
  "map_of (wrap_if_str k d) k' = (if k' = k then map_option listify (map_of d k) else map_of d k')"
  by (auto simp add: wrap_if_str_def listify_def update_conv' split: option.splits json.splits)

lemma map_of_validate:
  "map_of (validate_and_format_response d t) k =
     (if k \<in> {''required_access'', ''dependencies'', ''suggested_labels''}
      then map_option listify (map_of d k) else map_of d k)"
  by (simp add: validate_and_format_response_def map_of_wrap_if_str)

lemma retry_success_third:
  assumes "generate_content est p 0 = ApiRaises e0" "is_transient e0"
    "generate_content est p 1 = ApiRaises e1" "is_transient e1"
    "generate_content est p 2 = ApiReturns r"
  shows "retry_loop env est t p 3 [0..<3] 2 = (Break r, [Request p, Sleep 2, Request p, Sleep 4, Request p])"
  using assms by (simp add: attempts3)

lemma retry_fail_third:
  assumes "generate_content est p 0 = ApiRaises e0" "is_transient e0"
    "generate_content est p 1 = ApiRaises e1" "is_transient e1"
    "generate_content est p 2 = ApiRaises e2"
  shows "retry_loop env est t p 3 [0..<3] 2 =
    (Return (get_fallback_response env t (Some (''API Error: '' @ e2))),
     [Request p, Sleep 2, Request p, Sleep 4, Request p])"
  using assms by (simp add: attempts3)

lemma retry_fail_second:
  assumes "generate_content est p 0 = ApiRaises e0" "is_transient e0"
    "generate_content est p 1 = ApiRaises e1" "\<not> is_transient e1"
  shows "retry_loop env est t p 3 [0..<3] 2 =
    (Return (get_fallback_response env t (Some (''API Error: '' @ e1))),
     [Request p, Sleep 2, Request p])"
  using assms by (simp add: attempts3)

lemma retry_fail_first:
  assumes "generate_content est p 0 = ApiRaises e0" "\<not> is_transient e0"
  shows "retry_loop env est t p 3 [0..<3] 2 =
    (Return (get_fallback_response env t (Some (''API Error: '' @ e0))), [Request p])"
  using assms by (simp add: attempts3)

lemma estimate_task_break:
  assumes "available est"
    "retry_loop env est t (create_prompt t) 3 [0..<3] 2 = (Break (Some text), ev)"
    "json_loads env (clean_response (strip text)) = Decoded (JObj d)"
  shows "estimate_task env est t =
    (AList.update ''success'' (JBool True) (validate_and_format_response d t), ev)"
  using assms by (simp add: estimate_task_def try_body_def)

lemma estimate_task_return:
  assumes "available est"
    "retry_loop env est t (create_prompt t) 3 [0..<3] 2 = (Return r, ev)"
  shows "estimate_task env est t = (r, ev)"
  using assms by (simp add: estimate_task_def try_body_def)

lemma generate_content_client:
  "client est = Some c \<Longrightarrow> generate_content est p n = c (model_id est) p n"
  by (simp add: generate_content_def)

lemma retry_success_first:
  assumes "generate_content est p 0 = ApiReturns r"
  shows "retry_loop env est t p 3 [0..<3] 2 = (Break r, [Request p])"
  using assms by (simp add: attempts3)

lemma transient_503: "is_transient ''503 UNAVAILABLE''"
  by (simp add: is_transient_def startswith_def)

lemma not_transient_400: "\<not> is_transient ''400 INVALID_ARGUMENT''"
  by (simp add: is_transient_def startswith_def)

lemma demo_clean: "clean_response (strip ''```json\<newline>{}\<newline>```'') = ''{}''"
  by (simp add: clean_response_def startswith_def endswith_def strip_def lstrip_def rstrip_def
      is_space_def)

text \<open>
  C1. For every task string (empty or not), environment and estimator,
  \<open>estimate_task\<close> returns a dictionary: every exception raised inside it is a branch of
  the model that ends in the fallback. The dictionary either has \<open>success\<close> true, or is a
  complete fallback: \<open>success\<close> false, a non-empty \<open>error\<close> string, and \<open>title\<close>,
  \<open>estimated_time\<close>, \<open>priority\<close>, \<open>complexity_level\<close>, \<open>dependencies\<close>,
  \<open>required_access\<close>, \<open>suggested_labels\<close> and \<open>reasoning\<close> all populated.
\<close>

theorem C1_estimate_task_total:
  "map_of (fst (estimate_task env est t)) ''success'' = Some (JBool True) \<or>
   complete_fallback (fst (estimate_task env est t))"
  using estimate_task_cases [of env est t]
  by (auto simp add: update_success fallback_complete)


theorem C1_estimate_task_total_witness:
  "map_of (fst (estimate_task demo_env (demo_estimator (flaky_client 3 [])) ''Fix login''))
     ''success'' = Some (JBool True) \<or>
   complete_fallback (fst (estimate_task demo_env (demo_estimator (flaky_client 3 [])) ''Fix login''))"
  by (rule C1_estimate_task_total)

lemma marker_clean: \<open>clean_response (strip ''{"fallback": true}'') = ''{"fallback": true}''\<close>
  by code_simp

text \<open>
  C3, as stated, fails: the result of a successful third attempt is the provider's own
  JSON object, and nothing removes a \<open>fallback\<close> entry from it. Here the provider fails
  twice with a 503 and then answers \<open>{"fallback": true}\<close>: the result has \<open>success\<close> true
  and the marker \<open>fallback\<close> true.
\<close>

theorem C3_provider_marker_counterexample:
  "estimate_task marker_env (demo_estimator marker_client) ''Fix login'' =
     ([(''fallback'', JBool True), (''success'', JBool True)],
      [Request (create_prompt ''Fix login''), Sleep 2, Request (create_prompt ''Fix login''),
       Sleep 4, Request (create_prompt ''Fix login'')]) \<and>
   map_of (fst (estimate_task marker_env (demo_estimator marker_client) ''Fix login''))
     ''fallback'' = Some (JBool True)"
proof -
  let ?est = "demo_estimator marker_client"
  let ?t = "''Fix login''"
  let ?p = "create_prompt ?t"
  have av: "available ?est" by (simp add: demo_estimator_def)
  have g: "\<And>n. generate_content ?est ?p n = marker_client (model_id ?est) ?p n"
    by (simp add: generate_content_def demo_estimator_def)
  have rl: \<open>retry_loop marker_env ?est ?t ?p 3 [0..<3] 2 =
      (Break (Some ''{"fallback": true}''), [Request ?p, Sleep 2, Request ?p, Sleep 4, Request ?p])\<close>
    by (rule retry_success_third [of ?est ?p "''503 UNAVAILABLE''" "''503 UNAVAILABLE''"])
      (simp_all add: g marker_client_def transient_503)
  have jl: \<open>json_loads marker_env (clean_response (strip ''{"fallback": true}'')) =
      Decoded (JObj [(''fallback'', JBool True)])\<close>
    by (simp add: marker_clean marker_env_def)
  have v: "validate_and_format_response [(''fallback'', JBool True)] ?t =
      [(''fallback'', JBool True)]"
    by (simp add: validate_and_format_response_def wrap_if_str_def)
  have r: "estimate_task marker_env ?est ?t =
     ([(''fallback'', JBool True), (''success'', JBool True)],
      [Request ?p, Sleep 2, Request ?p, Sleep 4, Request ?p])"
    by (simp add: estimate_task_break [OF av rl jl] v)
  then show ?thesis by simp
qed

text \<open>
  C3, amended. With an available estimator: when the first two calls raise errors with a
  transient signature and the third returns a text that decodes to a JSON object,
  \<open>estimate_task\<close> returns that object, normalised and with \<open>success\<close> true; the code
  adds no \<open>fallback\<close> entry, so the result has one exactly when the provider's own JSON
  has one. It has slept 2 before the second call and 4 before the third. When the third
  call raises as well, or when a call raises an error that is not transient, the
  fallback is returned at once: no further request and no further sleep.
\<close>

theorem C3_retry_backoff:
  assumes av: "available est" and cl: "client est = Some c"
  shows
  "(c (model_id est) (create_prompt t) 0 = ApiRaises e0 \<and> is_transient e0 \<and>
    c (model_id est) (create_prompt t) 1 = ApiRaises e1 \<and> is_transient e1 \<and>
    c (model_id est) (create_prompt t) 2 = ApiReturns (Some text) \<and>
    json_loads env (clean_response (strip text)) = Decoded (JObj d) \<longrightarrow>
      estimate_task env est t =
        (AList.update ''success'' (JBool True) (validate_and_format_response d t),
         [Request (create_prompt t), Sleep 2, Request (create_prompt t), Sleep 4,
          Request (create_prompt t)]) \<and>
      map_of (fst (estimate_task env est t)) ''success'' = Some (JBool True) \<and>
      map_of (fst (estimate_task env est t)) ''fallback'' = map_of d ''fallback'') \<and>
   (c (model_id est) (create_prompt t) 0 = ApiRaises e0 \<and> is_transient e0 \<and>
    c (model_id est) (create_prompt t) 1 = ApiRaises e1 \<and> is_transient e1 \<and>
    c (model_id est) (create_prompt t) 2 = ApiRaises e2 \<longrightarrow>
      estimate_task env est t =
        (get_fallback_response env t (Some (''API Error: '' @ e2)),
         [Request (create_prompt t), Sleep 2, Request (create_prompt t), Sleep 4,
          Request (create_prompt t)])) \<and>
   (c (model_id est) (create_prompt t) 0 = ApiRaises e0 \<and> is_transient e0 \<and>
    c (model_id est) (create_prompt t) 1 = ApiRaises e1 \<and> \<not> is_transient e1 \<longrightarrow>
      estimate_task env est t =
        (get_fallback_response env t (Some (''API Error: '' @ e1)),
         [Request (create_prompt t), Sleep 2, Request (create_prompt t)])) \<and>
   (c (model_id est) (create_prompt t) 0 = ApiRaises e0 \<and> \<not> is_transient e0 \<longrightarrow>
      estimate_task env est t =
        (get_fallback_response env t (Some (''API Error: '' @ e0)),
         [Request (create_prompt t)]))"
proof (intro conjI impI)
  let ?p = "create_prompt t"
  note gc = generate_content_client [OF cl]
  {
    assume h: "c (model_id est) ?p 0 = ApiRaises e0 \<and> is_transient e0 \<and>
      c (model_id est) ?p 1 = ApiRaises e1 \<and> is_transient e1 \<and>
      c (model_id est) ?p 2 = ApiReturns (Some text) \<and>
      json_loads env (clean_response (strip text)) = Decoded (JObj d)"
    then have rl: "retry_loop env est t ?p 3 [0..<3] 2 =
        (Break (Some text), [Request ?p, Sleep 2, Request ?p, Sleep 4, Request ?p])"
      by (intro retry_success_third [of est ?p e0 e1]) (simp_all add: gc)
    from h have jl: "json_loads env (clean_response (strip text)) = Decoded (JObj d)"
      by simp
    show r: "estimate_task env est t =
        (AList.update ''success'' (JBool True) (validate_and_format_response d t),
         [Request ?p, Sleep 2, Request ?p, Sleep 4, Request ?p])"
      by (rule estimate_task_break [OF av rl jl])
    show "map_of (fst (estimate_task env est t)) ''success'' = Some (JBool True)"
      by (simp add: r update_conv')
    show "map_of (fst (estimate_task env est t)) ''fallback'' = map_of d ''fallback''"
      by (simp add: r update_conv' map_of_validate)
  }
  {
    assume h: "c (model_id est) ?p 0 = ApiRaises e0 \<and> is_transient e0 \<and>
      c (model_id est) ?p 1 = ApiRaises e1 \<and> is_transient e1 \<and>
      c (model_id est) ?p 2 = ApiRaises e2"
    then have "retry_loop env est t ?p 3 [0..<3] 2 =
        (Return (get_fallback_response env t (Some (''API Error: '' @ e2))),
         [Request ?p, Sleep 2, Request ?p, Sleep 4, Request ?p])"
      by (intro retry_fail_third [of est ?p e0 e1]) (simp_all add: gc)
    with av show "estimate_task env est t =
        (get_fallback_response env t (Some (''API Error: '' @ e2)),
         [Request ?p, Sleep 2, Request ?p, Sleep 4, Request ?p])"
      by (rule estimate_task_return)
  }
  {
    assume h: "c (model_id est) ?p 0 = ApiRaises e0 \<and> is_transient e0 \<and>
      c (model_id est) ?p 1 = ApiRaises e1 \<and> \<not> is_transient e1"
    then have "retry_loop env est t ?p 3 [0..<3] 2 =
        (Return (get_fallback_response env t (Some (''API Error: '' @ e1))),
         [Request ?p, Sleep 2, Request ?p])"
      by (intro retry_fail_second [of est ?p e0]) (simp_all add: gc)
    with av show "estimate_task env est t =
        (get_fallback_response env t (Some (''API Error: '' @ e1)),
         [Request ?p, Sleep 2, Request ?p])"
      by (rule estimate_task_return)
  }
  {
    assume h: "c (model_id est) ?p 0 = ApiRaises e0 \<and> \<not> is_transient e0"
    then have "retry_loop env est t ?p 3 [0..<3] 2 =
        (Return (get_fallback_response env t (Some (''API Error: '' @ e0))), [Request ?p])"
      by (intro retry_fail_first) (simp_all add: gc)
    with av show "estimate_task env est t =
        (get_fallback_response env t (Some (''API Error: '' @ e0)), [Request ?p])"
      by (rule estimate_task_return)
  }
qed


theorem C3_retry_backoff_witness:
  "estimate_task demo_env (demo_estimator (flaky_client 2 [])) ''Fix login'' =
     ([(''success'', JBool True)],
      [Request (create_prompt ''Fix login''), Sleep 2, Request (create_prompt ''Fix login''),
       Sleep 4, Request (create_prompt ''Fix login'')]) \<and>
   estimate_task demo_env (demo_estimator (flaky_client 3 [])) ''Fix login'' =
     (get_fallback_response demo_env ''Fix login'' (Some ''API Error: 503 UNAVAILABLE''),
      [Request (create_prompt ''Fix login''), Sleep 2, Request (create_prompt ''Fix login''),
       Sleep 4, Request (create_prompt ''Fix login'')]) \<and>
   estimate_task demo_env (demo_estimator (flaky_client 1 ''400 INVALID_ARGUMENT'')) ''Fix login'' =
     (get_fallback_response demo_env ''Fix login'' (Some ''API Error: 400 INVALID_ARGUMENT''),
      [Request (create_prompt ''Fix login''), Sleep 2, Request (create_prompt ''Fix login'')]) \<and>
   estimate_task demo_env (demo_estimator (flaky_client 0 ''400 INVALID_ARGUMENT'')) ''Fix login'' =
     (get_fallback_response demo_env ''Fix login'' (Some ''API Error: 400 INVALID_ARGUMENT''),
      [Request (create_prompt ''Fix login'')])"
proof (intro conjI)
  let ?t = "''Fix login''"
  have v: "validate_and_format_response [] ?t = []"
    by (simp add: validate_and_format_response_def wrap_if_str_def)
  have jl: "json_loads demo_env (clean_response (strip ''```json\<newline>{}\<newline>```'')) = Decoded (JObj [])"
    by (simp add: demo_clean demo_env_def)
  show "estimate_task demo_env (demo_estimator (flaky_client 2 [])) ?t =
     ([(''success'', JBool True)],
      [Request (create_prompt ?t), Sleep 2, Request (create_prompt ?t),
       Sleep 4, Request (create_prompt ?t)])"
    using C3_retry_backoff [of "demo_estimator (flaky_client 2 [])" "flaky_client 2 []" ?t
        "''503 UNAVAILABLE''" "''503 UNAVAILABLE''" "''```json\<newline>{}\<newline>```''" demo_env "[]"]
      transient_503 jl
    by (simp add: demo_estimator_def flaky_client_def v)
  show "estimate_task demo_env (demo_estimator (flaky_client 3 [])) ?t =
     (get_fallback_response demo_env ?t (Some ''API Error: 503 UNAVAILABLE''),
      [Request (create_prompt ?t), Sleep 2, Request (create_prompt ?t),
       Sleep 4, Request (create_prompt ?t)])"
    using C3_retry_backoff [of "demo_estimator (flaky_client 3 [])" "flaky_client 3 []" ?t
        "''503 UNAVAILABLE''" "''503 UNAVAILABLE''" _ demo_env _ "''503 UNAVAILABLE''"]
      transient_503
    by (simp add: demo_estimator_def flaky_client_def)
  show "estimate_task demo_env (demo_estimator (flaky_client 1 ''400 INVALID_ARGUMENT'')) ?t =
     (get_fallback_response demo_env ?t (Some ''API Error: 400 INVALID_ARGUMENT''),
      [Request (create_prompt ?t), Sleep 2, Request (create_prompt ?t)])"
    using C3_retry_backoff [of "demo_estimator (flaky_client 1 ''400 INVALID_ARGUMENT'')"
        "flaky_client 1 ''400 INVALID_ARGUMENT''" ?t
        "''503 UNAVAILABLE''" "''400 INVALID_ARGUMENT''" _ demo_env]
      transient_503 not_transient_400
    by (simp add: demo_estimator_def flaky_client_def)
  show "estimate_task demo_env (demo_estimator (flaky_client 0 ''400 INVALID_ARGUMENT'')) ?t =
     (get_fallback_response demo_env ?t (Some ''API Error: 400 INVALID_ARGUMENT''),
      [Request (create_prompt ?t)])"
    using C3_retry_backoff [of "demo_estimator (flaky_client 0 ''400 INVALID_ARGUMENT'')"
        "flaky_client 0 ''400 INVALID_ARGUMENT''" ?t
        "''400 INVALID_ARGUMENT''" _ _ demo_env]
      not_transient_400
    by (simp add: demo_estimator_def flaky_client_def)
qed

text \<open>
  C6. An estimator constructed without a provider credential (no \<open>GEMINI_API_KEY\<close>, an
  empty one, or a client constructor that raises) is unavailable; and every call of
  \<open>estimate_task\<close> on an unavailable estimator returns the fallback response without a
  request, a sleep or a prompt, whatever its client and environment are. The call reads
  the \<open>available\<close> field only: the environment variables are read by \<open>init\<close> alone.
\<close>

theorem C6_unavailable_short_circuit:
  "(getenv ''GEMINI_API_KEY'' = None \<or> getenv ''GEMINI_API_KEY'' = Some [] \<or>
    (\<exists>k e. getenv ''GEMINI_API_KEY'' = Some k \<and> make_client k = Inl e) \<longrightarrow>
      \<not> available (init getenv make_client)) \<and>
   (\<not> available est \<longrightarrow>
      estimate_task env est t = (get_fallback_response env t None, []))"
  by (auto simp add: init_def estimate_task_def split: option.splits sum.splits)

theorem C6_unavailable_short_circuit_witness:
  "\<not> available (init (\<lambda>v. None) (\<lambda>k. Inr (flaky_client 0 []))) \<and>
   estimate_task demo_env (init (\<lambda>v. None) (\<lambda>k. Inr (flaky_client 0 []))) ''Fix login'' =
     (get_fallback_response demo_env ''Fix login'' None, [])"
proof -
  have a: "\<not> available (init (\<lambda>v. None) (\<lambda>k. Inr (flaky_client 0 [])))"
    using C6_unavailable_short_circuit [of "\<lambda>v. None" "\<lambda>k. Inr (flaky_client 0 [])"] by simp
  with C6_unavailable_short_circuit [of _ _ "init (\<lambda>v. None) (\<lambda>k. Inr (flaky_client 0 []))" demo_env "''Fix login''"]
  show ?thesis by blast
qed

text \<open>
  C8. Two fallback responses for the same task text and no error note are equal in every
  entry but \<open>timestamp\<close>, whatever the clock reads; the response has \<open>success\<close> false,
  \<open>fallback\<close> true, the default error text, a timestamp, and every content field
  populated, for any task text.
\<close>

theorem C8_fallback_deterministic:
  "without_timestamp (get_fallback_response env1 t None) =
     without_timestamp (get_fallback_response env2 t None) \<and>
   map_of (get_fallback_response env1 t None) ''success'' = Some (JBool False) \<and>
   map_of (get_fallback_response env1 t None) ''fallback'' = Some (JBool True) \<and>
   map_of (get_fallback_response env1 t None) ''error'' =
     Some (JStr ''AI service temporarily unavailable'') \<and>
   map_of (get_fallback_response env1 t None) ''timestamp'' = Some (JStr (now_isoformat env1)) \<and>
   complete_fallback (get_fallback_response env1 t None)"
proof -
  have "without_timestamp (get_fallback_response env1 t None) =
     without_timestamp (get_fallback_response env2 t None)"
    by (simp add: without_timestamp_def get_fallback_response_def)
  moreover have "map_of (get_fallback_response env1 t None) ''error'' =
     Some (JStr ''AI service temporarily unavailable'')"
    by (simp add: get_fallback_response_def)
  ultimately show ?thesis by (simp add: fallback_markers fallback_complete)
qed

theorem C8_fallback_deterministic_witness:
  "without_timestamp (get_fallback_response (demo_env\<lparr>now_isoformat := ''2026-01-01T00:00:00''\<rparr>) ''Fix login'' None) =
   without_timestamp (get_fallback_response (demo_env\<lparr>now_isoformat := ''2026-01-02T12:30:00''\<rparr>) ''Fix login'' None)"
  using C8_fallback_deterministic [of "demo_env\<lparr>now_isoformat := ''2026-01-01T00:00:00''\<rparr>" "''Fix login''"
      "demo_env\<lparr>now_isoformat := ''2026-01-02T12:30:00''\<rparr>"]
  by blast

text \<open>
  C10. Every dictionary returned by \<open>estimate_task\<close> has a Boolean \<open>success\<close> entry.
  When it is false, the dictionary has \<open>fallback\<close> true, a non-empty \<open>error\<close> string and a
  \<open>timestamp\<close>. When the retry loop ends with a response whose text decodes to a JSON
  object, the result is that object, normalised, with \<open>success\<close> set to true whatever
  \<open>success\<close> entry the object had.
\<close>

theorem C10_success_key_invariant:
  "(map_of (fst (estimate_task env est t)) ''success'' = Some (JBool True) \<or>
    map_of (fst (estimate_task env est t)) ''success'' = Some (JBool False)) \<and>
   (map_of (fst (estimate_task env est t)) ''success'' = Some (JBool False) \<longrightarrow>
      map_of (fst (estimate_task env est t)) ''fallback'' = Some (JBool True) \<and>
      populated_str (fst (estimate_task env est t)) ''error'' \<and>
      map_of (fst (estimate_task env est t)) ''timestamp'' = Some (JStr (now_isoformat env))) \<and>
   (available est \<and>
    retry_loop env est t (create_prompt t) 3 [0..<3] 2 = (Break (Some text), events) \<and>
    json_loads env (clean_response (strip text)) = Decoded (JObj data) \<longrightarrow>
      fst (estimate_task env est t) =
        AList.update ''success'' (JBool True) (validate_and_format_response data t) \<and>
      map_of (fst (estimate_task env est t)) ''success'' = Some (JBool True))"
proof (intro conjI impI)
  let ?r = "fst (estimate_task env est t)"
  from estimate_task_cases [of env est t]
  show "map_of ?r ''success'' = Some (JBool True) \<or> map_of ?r ''success'' = Some (JBool False)"
    by (auto simp add: update_success fallback_markers)
  {
    assume f: "map_of ?r ''success'' = Some (JBool False)"
    with estimate_task_cases [of env est t]
    obtain e where e: "?r = get_fallback_response env t e"
      by (auto simp add: update_success)
    show "map_of ?r ''fallback'' = Some (JBool True)" by (simp add: e fallback_markers)
    show "populated_str ?r ''error''"
      using fallback_complete [of env t e] by (simp add: e complete_fallback_def)
    show "map_of ?r ''timestamp'' = Some (JStr (now_isoformat env))"
      by (simp add: e fallback_markers)
  }
  {
    assume h: "available est \<and>
      retry_loop env est t (create_prompt t) 3 [0..<3] 2 = (Break (Some text), events) \<and>
      json_loads env (clean_response (strip text)) = Decoded (JObj data)"
    then have r: "estimate_task env est t =
      (AList.update ''success'' (JBool True) (validate_and_format_response data t), events)"
      by (intro estimate_task_break) blast+
    then show "?r = AList.update ''success'' (JBool True) (validate_and_format_response data t)"
      by simp
    from r show "map_of ?r ''success'' = Some (JBool True)" by (simp add: update_success)
  }
qed


theorem C10_success_key_invariant_witness:
  "map_of (fst (estimate_task demo_env ((demo_estimator (flaky_client 0 []))\<lparr>available := False\<rparr>)
      ''Fix login'')) ''success'' = Some (JBool False) \<and>
   map_of (fst (estimate_task demo_env ((demo_estimator (flaky_client 0 []))\<lparr>available := False\<rparr>)
      ''Fix login'')) ''fallback'' = Some (JBool True) \<and>
   fst (estimate_task demo_env (demo_estimator (flaky_client 0 [])) ''Fix login'') =
     [(''success'', JBool True)]"
proof -
  let ?off = "(demo_estimator (flaky_client 0 []))\<lparr>available := False\<rparr>"
  let ?on = "demo_estimator (flaky_client 0 [])"
  let ?t = "''Fix login''"
  have f: "map_of (fst (estimate_task demo_env ?off ?t)) ''success'' = Some (JBool False)"
    by (simp add: estimate_task_def fallback_markers)
  with C10_success_key_invariant [of demo_env ?off ?t]
  have m: "map_of (fst (estimate_task demo_env ?off ?t)) ''fallback'' = Some (JBool True)"
    by blast
  have av: "available ?on" by (simp add: demo_estimator_def)
  have "generate_content ?on (create_prompt ?t) 0 = ApiReturns (Some ''```json\<newline>{}\<newline>```'')"
    by (simp add: generate_content_def demo_estimator_def flaky_client_def)
  then have rl: "retry_loop demo_env ?on ?t (create_prompt ?t) 3 [0..<3] 2 =
      (Break (Some ''```json\<newline>{}\<newline>```''), [Request (create_prompt ?t)])"
    by (rule retry_success_first)
  have jl: "json_loads demo_env (clean_response (strip ''```json\<newline>{}\<newline>```'')) =
      Decoded (JObj [])"
    by (simp add: demo_clean demo_env_def)
  have v: "validate_and_format_response [] ?t = []"
    by (simp add: validate_and_format_response_def wrap_if_str_def)
  from C10_success_key_invariant [of demo_env ?on ?t "''```json\<newline>{}\<newline>```''"
      "[Request (create_prompt ?t)]" "[]"] av rl jl
  have "fst (estimate_task demo_env ?on ?t) =
      AList.update ''success'' (JBool True) (validate_and_format_response [] ?t)"
    by blast
  then have "fst (estimate_task demo_env ?on ?t) = [(''success'', JBool True)]"
    by (simp add: v)
  with f m show ?thesis by blast
qed

section \<open>Titles\<close>

lemma split_acc_spaces: "\<forall>c\<in>set ws. is_space c \<Longrightarrow> split_acc w ws = split_acc w []"
proof (induction ws arbitrary: w)
  case Nil
  show ?case by simp
next
  case (Cons c ws)
  then have "split_acc [] ws = split_acc [] []" by simp
  with Cons.prems show ?case by simp
qed

lemma split_acc_append_spaces:
  "\<forall>c\<in>set ws. is_space c \<Longrightarrow> split_acc w (s @ ws) = split_acc w s"
proof (induction s arbitrary: w)
  case Nil
  then show ?case by (simp add: split_acc_spaces)
next
  case (Cons c s)
  then show ?case by simp
qed

lemma split_lstrip: "split (lstrip s) = split s"
  by (induction s) (simp_all add: split_def lstrip_def)

lemma split_rstrip: "split (rstrip s) = split s"
proof -
  have "rev s = takeWhile is_space (rev s) @ dropWhile is_space (rev s)" by simp
  then have "s = rev (dropWhile is_space (rev s)) @ rev (takeWhile is_space (rev s))"
    by (metis rev_append rev_rev_ident)
  then have s: "s = rstrip s @ rev (takeWhile is_space (rev s))" by (simp add: rstrip_def)
  have "\<forall>c\<in>set (rev (takeWhile is_space (rev s))). is_space c"
    by (auto dest: set_takeWhileD)
  then have "split_acc [] (rstrip s @ rev (takeWhile is_space (rev s))) = split_acc [] (rstrip s)"
    by (rule split_acc_append_spaces)
  with s show ?thesis by (simp add: split_def)
qed

lemma split_strip: "split (strip s) = split s"
  by (simp add: strip_def split_rstrip split_lstrip)

lemma split_acc_replace_newline:
  "split_acc w (replace_char (CHR ''\<newline>'') '' '' s) = split_acc w s"
proof (induction s arbitrary: w)
  case Nil
  show ?case by (simp add: replace_char_def)
next
  case (Cons c s)
  have sp: "is_space (CHR '' '')" by (simp add: is_space_def)
  from Cons have ih: "\<And>w. split_acc w (concat (map (\<lambda>c. if c = CHR ''\<newline>'' then '' '' else [c]) s)) = split_acc w s"
    by (simp add: replace_char_def)
  show ?case
    by (cases "c = CHR ''\<newline>''") (simp_all add: replace_char_def ih sp newline_space)
qed

lemma split_replace_newline: "split (replace_char (CHR ''\<newline>'') '' '' s) = split s"
  by (simp add: split_def split_acc_replace_newline)

lemma generate_short_title_words:
  "task \<noteq> [] \<Longrightarrow>
     generate_short_title task n = capitalize (join '' '' (take n (split task)))"
  by (simp add: generate_short_title_def Let_def split_strip split_replace_newline)

lemma example_title:
  "generate_short_title ''Fix login bug on mobile Safari for iOS 17 users'' 6 =
     ''Fix login bug on mobile safari''"
  by code_simp

lemma to_lower_not_upper: "\<not> is_upper (to_lower c)"
  by (auto simp add: to_lower_def is_upper_def Let_def)

lemma title_char_tail_lower: "\<forall>x\<in>set (tl (title_char c)). \<not> is_upper x"
  by (simp add: title_char_def is_upper_def)

lemma title_char_nonempty: "title_char c \<noteq> []"
  by (simp add: title_char_def)

lemma capitalize_tail_lower: "\<forall>x\<in>set (tl (capitalize s)). \<not> is_upper x"
proof (cases s)
  case Nil
  then show ?thesis by simp
next
  case (Cons c s')
  have "tl (capitalize s) = tl (title_char c) @ map to_lower s'"
    using title_char_nonempty [of c] by (simp add: Cons)
  then show ?thesis
    using title_char_tail_lower [of c] by (auto simp add: to_lower_not_upper)
qed

text \<open>The case tables beyond ASCII, on three titles.\<close>

lemma capitalize_latin1:
  "generate_short_title (''Z'' @ [CHR 0xC9] @ ''RO Day'') 6 = ''Z'' @ [CHR 0xE9] @ ''ro day''"
  "generate_short_title ([CHR 0xDF] @ ''a B'') 6 = ''Ssa b''"
  "generate_short_title ([CHR 0xE9] @ ''t'' @ [CHR 0xC9]) 6 = [CHR 0xC9] @ ''t'' @ [CHR 0xE9]"
  by code_simp+

lemma response_title:
  "map_of (response_data h task r) ''title'' =
     Some (JStr (case map_of r ''title'' of
               Some (JStr raw_title) \<Rightarrow>
                 if 3 \<le> length (split raw_title) \<and> length (split raw_title) \<le> 6
                 then strip raw_title
                 else generate_short_title task 6
             | _ \<Rightarrow> generate_short_title task 6))"
  by (simp add: response_data_def Let_def)

text \<open>
  C4, as stated, fails: \<open>capitalize()\<close> lower-cases every character after the first, so
  the title derived from the example task ends in \<open>safari\<close>, not \<open>Safari\<close>.
\<close>

theorem C4_example_title_counterexample:
  "generate_short_title ''Fix login bug on mobile Safari for iOS 17 users'' 6 \<noteq>
     ''Fix login bug on mobile Safari''"
  by code_simp

text \<open>
  C4, amended. The title derived from \<open>Fix login bug on mobile Safari for iOS 17 users\<close>
  is \<open>Fix login bug on mobile safari\<close>. In the response of the estimate endpoint the
  title is the model's title without its surrounding whitespace when that title is a
  string of 3 to 6 words, and the title derived from the task text otherwise. For a
  non-empty task text the derived title is the first 6 whitespace-separated words joined
  by single spaces, with the first character title-cased and every other character
  lower-cased, so that no upper-case letter remains after the first character. The
  statements about the derived title are for task texts whose case the model covers
  (\<open>case_modelled\<close>).
\<close>

theorem C4_title_derivation:
  "generate_short_title ''Fix login bug on mobile Safari for iOS 17 users'' 6 =
     ''Fix login bug on mobile safari'' \<and>
   (map_of ai_response ''title'' = Some (JStr raw_title) \<and>
    3 \<le> length (split raw_title) \<and> length (split raw_title) \<le> 6 \<longrightarrow>
      map_of (response_data h task ai_response) ''title'' = Some (JStr (strip raw_title))) \<and>
   (case_modelled task \<and>
    \<not> (\<exists>raw. map_of ai_response ''title'' = Some (JStr raw) \<and>
          3 \<le> length (split raw) \<and> length (split raw) \<le> 6) \<longrightarrow>
      map_of (response_data h task ai_response) ''title'' =
        Some (JStr (generate_short_title task 6))) \<and>
   (case_modelled task \<and> task \<noteq> [] \<longrightarrow>
      generate_short_title task 6 = capitalize (join '' '' (take 6 (split task))) \<and>
      (\<forall>x\<in>set (tl (generate_short_title task 6)). \<not> is_upper x))"
proof (intro conjI impI)
  show "generate_short_title ''Fix login bug on mobile Safari for iOS 17 users'' 6 =
     ''Fix login bug on mobile safari''"
    by (rule example_title)
  show "map_of (response_data h task ai_response) ''title'' = Some (JStr (strip raw_title))"
    if "map_of ai_response ''title'' = Some (JStr raw_title) \<and>
        3 \<le> length (split raw_title) \<and> length (split raw_title) \<le> 6"
    using that by (simp add: response_title)
  show "map_of (response_data h task ai_response) ''title'' =
        Some (JStr (generate_short_title task 6))"
    if "case_modelled task \<and>
        \<not> (\<exists>raw. map_of ai_response ''title'' = Some (JStr raw) \<and>
          3 \<le> length (split raw) \<and> length (split raw) \<le> 6)"
    using that by (auto simp add: response_title split: option.splits json.splits)
  show "generate_short_title task 6 = capitalize (join '' '' (take 6 (split task)))"
    if "case_modelled task \<and> task \<noteq> []"
    using that by (simp add: generate_short_title_words)
  show "\<forall>x\<in>set (tl (generate_short_title task 6)). \<not> is_upper x"
    if "case_modelled task \<and> task \<noteq> []"
    using that by (simp add: generate_short_title_words capitalize_tail_lower)
qed

lemma words3: "length (split '' Fix mobile login '') = 3" by code_simp
lemma words2: "length (split ''Fix login'') = 2" by code_simp
lemma strip3: "strip '' Fix mobile login '' = ''Fix mobile login''" by code_simp

lemma example_case_modelled:
  "case_modelled ''Fix login bug on mobile Safari for iOS 17 users''"
  by code_simp

theorem C4_title_derivation_witness:
  "map_of (response_data (demo_handler (demo_estimator (flaky_client 0 [])))
      ''Fix login bug on mobile Safari for iOS 17 users''
      [(''title'', JStr '' Fix mobile login '')]) ''title'' = Some (JStr ''Fix mobile login'') \<and>
   map_of (response_data (demo_handler (demo_estimator (flaky_client 0 [])))
      ''Fix login bug on mobile Safari for iOS 17 users''
      [(''title'', JStr ''Fix login'')]) ''title'' =
     Some (JStr ''Fix login bug on mobile safari'') \<and>
   map_of (response_data (demo_handler (demo_estimator (flaky_client 0 [])))
      ''Fix login bug on mobile Safari for iOS 17 users'' []) ''title'' =
     Some (JStr ''Fix login bug on mobile safari'') \<and>
   case_modelled ''Fix login bug on mobile Safari for iOS 17 users'' \<and>
   generate_short_title ''Fix login bug on mobile Safari for iOS 17 users'' 6 =
     capitalize (join '' '' (take 6 (split ''Fix login bug on mobile Safari for iOS 17 users'')))"
proof (intro conjI)
  let ?h = "demo_handler (demo_estimator (flaky_client 0 []))"
  let ?t = "''Fix login bug on mobile Safari for iOS 17 users''"
  note m = example_case_modelled
  have n: "?t \<noteq> []" by simp
  have e: "generate_short_title ?t 6 = ''Fix login bug on mobile safari''"
    using C4_title_derivation [of "[]" "[]" ?h ?t] by blast
  show "map_of (response_data ?h ?t [(''title'', JStr '' Fix mobile login '')]) ''title'' =
      Some (JStr ''Fix mobile login'')"
    using C4_title_derivation [of "[(''title'', JStr '' Fix mobile login '')]" "'' Fix mobile login ''" ?h ?t]
    by (simp add: words3 strip3)
  show "map_of (response_data ?h ?t [(''title'', JStr ''Fix login'')]) ''title'' =
      Some (JStr ''Fix login bug on mobile safari'')"
    using C4_title_derivation [of "[(''title'', JStr ''Fix login'')]" _ ?h ?t] e m
    by (simp add: words2)
  show "map_of (response_data ?h ?t []) ''title'' = Some (JStr ''Fix login bug on mobile safari'')"
    using C4_title_derivation [of "[]" _ ?h ?t] e m by simp
  show "case_modelled ?t" by (rule m)
  show "generate_short_title ?t 6 = capitalize (join '' '' (take 6 (split ?t)))"
    using C4_title_derivation [of "[]" "[]" ?h ?t] m n by blast
qed

section \<open>The estimate endpoint\<close>

lemma get_ai_estimate_success:
  assumes "map_of d ''task'' = Some (JStr t)" and "strip t \<noteq> []"
    and "sliceable (get_or (estimate h (strip t)) ''reasoning'' (JStr []))"
    and "truthy (get_or (estimate h (strip t)) ''success'' JNull)"
  shows "get_ai_estimate h (Inr (JObj d)) =
    (response_data h (strip t) (estimate h (strip t)), 200)"
  using assms by (simp add: get_ai_estimate_def get_or_def Let_def)

lemma get_ai_estimate_failure:
  assumes "map_of d ''task'' = Some (JStr t)" and "strip t \<noteq> []"
    and "sliceable (get_or (estimate h (strip t)) ''reasoning'' (JStr []))"
    and "\<not> truthy (get_or (estimate h (strip t)) ''success'' JNull)"
  shows "get_ai_estimate h (Inr (JObj d)) =
    (error_body (get_or (estimate h (strip t)) ''error'' (JStr ''AI generation failed'')), 500)"
  using assms by (simp add: get_ai_estimate_def get_or_def Let_def)

lemma fallback_error:
  "\<exists>e. e \<noteq> [] \<and> map_of (get_fallback_response env t e0) ''error'' = Some (JStr e)"
  by (cases e0) (simp_all add: get_fallback_response_def)

lemma fallback_reasoning_str:
  "map_of (get_fallback_response env t e0) ''reasoning'' = Some (JStr (fallback_reasoning t))"
  by (simp add: get_fallback_response_def)

lemma failed_estimate_is_fallback:
  assumes "map_of (fst (estimate_task env est t)) ''success'' = Some (JBool False)"
  shows "\<exists>e0. fst (estimate_task env est t) = get_fallback_response env t e0"
  using estimate_task_cases [of env est t] assms by (auto simp add: update_success)

lemma strip_fix_login: "strip ''Fix login'' = ''Fix login''" by code_simp
lemma strip_deploy: "strip '' Deploy service '' = ''Deploy service''" by code_simp

lemma demo_handler_estimate:
  "estimate (demo_handler est) = (\<lambda>task. fst (estimate_task demo_env est task))"
  by (simp add: demo_handler_def)

lemma unavailable_estimate:
  "\<not> available est \<Longrightarrow> fst (estimate_task env est t) = get_fallback_response env t None"
  by (simp add: estimate_task_def)

lemma demo_estimate_success:
  "fst (estimate_task demo_env (demo_estimator (flaky_client 0 [])) t) =
     [(''success'', JBool True)]"
proof -
  let ?on = "demo_estimator (flaky_client 0 [])"
  have av: "available ?on" by (simp add: demo_estimator_def)
  have "generate_content ?on (create_prompt t) 0 = ApiReturns (Some ''```json\<newline>{}\<newline>```'')"
    by (simp add: generate_content_def demo_estimator_def flaky_client_def)
  then have rl: "retry_loop demo_env ?on t (create_prompt t) 3 [0..<3] 2 =
      (Break (Some ''```json\<newline>{}\<newline>```''), [Request (create_prompt t)])"
    by (rule retry_success_first)
  have jl: "json_loads demo_env (clean_response (strip ''```json\<newline>{}\<newline>```'')) =
      Decoded (JObj [])"
    by (simp add: demo_clean demo_env_def)
  have v: "validate_and_format_response [] t = []"
    by (simp add: validate_and_format_response_def wrap_if_str_def)
  show ?thesis
    by (simp add: estimate_task_break [OF av rl jl] v)
qed

lemma demo_ticket_id:
  "take 16 (hex_of (0x0123456789abcdeffedcba9876543210 :: 128 word)) = ''0123456789abcdef''"
  by code_simp

lemma demo_ticket_number:
  "upper (take 8 (hex_of (0xdeadbeef000040008000000000000001 :: 128 word))) = ''DEADBEEF''"
  by code_simp

text \<open>
  C5, as stated, fails: with an unavailable estimator the estimate for \<open>Fix login\<close> has
  \<open>success\<close> false, and the endpoint answers with status 500 and a body that holds
  \<open>success\<close> and \<open>error\<close> only; the fallback's \<open>title\<close>, \<open>reasoning\<close> and arrays are
  not in it.
\<close>

theorem C5_failed_estimate_counterexample:
  "map_of (fst (estimate_task demo_env ((demo_estimator (flaky_client 0 []))\<lparr>available := False\<rparr>)
      ''Fix login'')) ''success'' = Some (JBool False) \<and>
   get_ai_estimate (demo_handler ((demo_estimator (flaky_client 0 []))\<lparr>available := False\<rparr>))
      (Inr (JObj [(''task'', JStr ''Fix login'')])) =
     ([(''success'', JBool False), (''error'', JStr ''AI service temporarily unavailable'')], 500) \<and>
   map_of (fst (get_ai_estimate
        (demo_handler ((demo_estimator (flaky_client 0 []))\<lparr>available := False\<rparr>))
        (Inr (JObj [(''task'', JStr ''Fix login'')])))) ''reasoning'' = None"
proof -
  let ?off = "(demo_estimator (flaky_client 0 []))\<lparr>available := False\<rparr>"
  have u: "\<And>t. fst (estimate_task demo_env ?off t) = get_fallback_response demo_env t None"
    by (rule unavailable_estimate) (simp add: demo_estimator_def)
  have a: "map_of (fst (estimate_task demo_env ?off ''Fix login'')) ''success'' = Some (JBool False)"
    by (simp add: u fallback_markers)
  have g: "get_ai_estimate (demo_handler ?off) (Inr (JObj [(''task'', JStr ''Fix login'')])) =
     (error_body (get_or (estimate (demo_handler ?off) (strip ''Fix login'')) ''error''
        (JStr ''AI generation failed'')), 500)"
    by (rule get_ai_estimate_failure [where t = "''Fix login''"])
      (simp_all add: strip_fix_login demo_handler_estimate u get_or_def fallback_markers
        fallback_reasoning_str sliceable_def truthy_def)
  have "get_or (estimate (demo_handler ?off) (strip ''Fix login'')) ''error''
        (JStr ''AI generation failed'') = JStr ''AI service temporarily unavailable''"
    by (simp add: strip_fix_login demo_handler_estimate u get_or_def get_fallback_response_def)
  with g have r: "get_ai_estimate (demo_handler ?off) (Inr (JObj [(''task'', JStr ''Fix login'')])) =
     ([(''success'', JBool False), (''error'', JStr ''AI service temporarily unavailable'')], 500)"
    by (simp add: error_body_def)
  from a r show ?thesis by simp
qed

text \<open>
  C5, amended. When the estimate for a non-empty task fails (\<open>estimate_task\<close> returns
  \<open>success\<close> false), the estimate endpoint answers with status 500 and the body
  \<open>{success: false, error: e}\<close>, where \<open>e\<close> is the non-empty error string of the
  estimate; the fallback content is not forwarded.
\<close>

theorem C5_failed_estimate_error_response:
  "map_of d ''task'' = Some (JStr t) \<and> strip t \<noteq> [] \<and>
   estimate h = (\<lambda>task. fst (estimate_task env est task)) \<and>
   map_of (fst (estimate_task env est (strip t))) ''success'' = Some (JBool False) \<longrightarrow>
     (\<exists>e. e \<noteq> [] \<and>
        map_of (fst (estimate_task env est (strip t))) ''error'' = Some (JStr e) \<and>
        get_ai_estimate h (Inr (JObj d)) =
          ([(''success'', JBool False), (''error'', JStr e)], 500))"
proof
  assume a: "map_of d ''task'' = Some (JStr t) \<and> strip t \<noteq> [] \<and>
   estimate h = (\<lambda>task. fst (estimate_task env est task)) \<and>
   map_of (fst (estimate_task env est (strip t))) ''success'' = Some (JBool False)"
  let ?r = "fst (estimate_task env est (strip t))"
  from a have eh: "estimate h (strip t) = ?r" by simp
  from a obtain e0 where r: "?r = get_fallback_response env (strip t) e0"
    using failed_estimate_is_fallback by blast
  obtain e where e: "e \<noteq> []" "map_of ?r ''error'' = Some (JStr e)"
    using fallback_error [of env "strip t" e0] r by auto
  have s: "sliceable (get_or (estimate h (strip t)) ''reasoning'' (JStr []))"
    by (simp add: eh r get_or_def fallback_reasoning_str sliceable_def)
  have f: "\<not> truthy (get_or (estimate h (strip t)) ''success'' JNull)"
    using a by (simp add: eh get_or_def truthy_def)
  from a have "get_ai_estimate h (Inr (JObj d)) =
    (error_body (get_or (estimate h (strip t)) ''error'' (JStr ''AI generation failed'')), 500)"
    by (intro get_ai_estimate_failure [OF _ _ s f]) simp_all
  then have "get_ai_estimate h (Inr (JObj d)) =
      ([(''success'', JBool False), (''error'', JStr e)], 500)"
    by (simp add: eh get_or_def e error_body_def)
  with e show "\<exists>e. e \<noteq> [] \<and> map_of ?r ''error'' = Some (JStr e) \<and>
        get_ai_estimate h (Inr (JObj d)) =
          ([(''success'', JBool False), (''error'', JStr e)], 500)"
    by blast
qed

theorem C5_failed_estimate_error_response_witness:
  "get_ai_estimate (demo_handler ((demo_estimator (flaky_client 0 []))\<lparr>available := False\<rparr>))
      (Inr (JObj [(''task'', JStr '' Deploy service '')])) =
     ([(''success'', JBool False), (''error'', JStr ''AI service temporarily unavailable'')], 500)"
proof -
  let ?off = "(demo_estimator (flaky_client 0 []))\<lparr>available := False\<rparr>"
  let ?r = "fst (estimate_task demo_env ?off (strip '' Deploy service ''))"
  have u: "?r = get_fallback_response demo_env (strip '' Deploy service '') None"
    by (rule unavailable_estimate) (simp add: demo_estimator_def)
  have a: "map_of ?r ''success'' = Some (JBool False)"
    by (simp add: u fallback_markers)
  have n: "strip '' Deploy service '' \<noteq> []" by (simp add: strip_deploy)
  from C5_failed_estimate_error_response [of "[(''task'', JStr '' Deploy service '')]" "'' Deploy service ''"
      "demo_handler ?off" demo_env ?off] a n demo_handler_estimate [of ?off]
  obtain e where e: "map_of ?r ''error'' = Some (JStr e)"
    "get_ai_estimate (demo_handler ?off) (Inr (JObj [(''task'', JStr '' Deploy service '')])) =
          ([(''success'', JBool False), (''error'', JStr e)], 500)"
    by auto
  have "map_of ?r ''error'' = Some (JStr ''AI service temporarily unavailable'')"
    by (simp add: u get_fallback_response_def)
  with e show ?thesis by simp
qed

section \<open>Ticket identifiers\<close>

lemma hex_digit_in: "n < 16 \<Longrightarrow> hex_digit n \<in> set ''0123456789abcdef''"
  unfolding hex_digit_def by (rule nth_mem) simp

lemma nibble_bound: "unat ((w :: 128 word) AND 15) < 16"
proof -
  have "w AND 15 \<le> 15" by (rule word_and_le1)
  then have "unat (w AND 15) \<le> unat (15 :: 128 word)" by (simp add: word_le_nat_alt)
  then show ?thesis by simp
qed

lemma hex_of_length: "length (hex_of w) = 32"
  by (simp add: hex_of_def)

lemma hex_of_chars: "set (hex_of w) \<subseteq> set ''0123456789abcdef''"
proof
  fix c
  assume "c \<in> set (hex_of w)"
  then obtain i where c: "c = hex_digit (unat (drop_bit (4 * (31 - i)) w AND 15))"
    by (auto simp add: hex_of_def)
  have "hex_digit (unat (drop_bit (4 * (31 - i)) w AND 15)) \<in> set ''0123456789abcdef''"
    by (rule hex_digit_in [OF nibble_bound])
  with c show "c \<in> set ''0123456789abcdef''" by blast
qed

lemma upper_hex_digit:
  "\<forall>c\<in>set ''0123456789abcdef''. \<exists>d\<in>set ''0123456789ABCDEF''. upper_char c = [d]"
  by code_simp

lemma upper_hex:
  "set s \<subseteq> set ''0123456789abcdef'' \<Longrightarrow>
     length (upper s) = length s \<and> set (upper s) \<subseteq> set ''0123456789ABCDEF''"
proof (induction s)
  case Nil
  show ?case by (simp add: upper_def)
next
  case (Cons c s)
  from Cons.prems have c: "c \<in> set ''0123456789abcdef''"
    and s: "set s \<subseteq> set ''0123456789abcdef''"
    by simp_all
  from c upper_hex_digit obtain d where d: "d \<in> set ''0123456789ABCDEF''" "upper_char c = [d]"
    by blast
  have u: "upper (c # s) = d # upper s" by (simp add: upper_def d)
  from Cons.IH [OF s] have ih: "length (upper s) = length s"
    "set (upper s) \<subseteq> set ''0123456789ABCDEF''"
    by blast+
  have "length (upper (c # s)) = length (c # s)" by (simp add: u ih)
  moreover have "set (upper (c # s)) \<subseteq> set ''0123456789ABCDEF''"
    unfolding u using d(1) ih(2) by (simp only: set_simps insert_subset)
  ultimately show ?case by blast
qed

lemma take_uuid_str: "take 8 (uuid_str u) = take 8 (hex_of u)"
  by (simp add: uuid_str_def Let_def hex_of_length)

lemma ticket_id_shape:
  "length (take 16 (hex_of w)) = 16 \<and> set (take 16 (hex_of w)) \<subseteq> set ''0123456789abcdef''"
proof
  show "length (take 16 (hex_of w)) = 16" by (simp add: hex_of_length)
  have "set (take 16 (hex_of w)) \<subseteq> set (hex_of w)" by (rule set_take_subset)
  then show "set (take 16 (hex_of w)) \<subseteq> set ''0123456789abcdef''"
    using hex_of_chars [of w] by (rule subset_trans)
qed

lemma ticket_number_shape:
  "generate_ticket_number u = ''TKT-'' @ upper (take 8 (hex_of u)) \<and>
   length (upper (take 8 (hex_of u))) = 8 \<and>
   set (upper (take 8 (hex_of u))) \<subseteq> set ''0123456789ABCDEF''"
proof (intro conjI)
  show "generate_ticket_number u = ''TKT-'' @ upper (take 8 (hex_of u))"
    by (simp add: generate_ticket_number_def take_uuid_str)
  have "set (take 8 (hex_of u)) \<subseteq> set (hex_of u)" by (rule set_take_subset)
  then have h: "set (take 8 (hex_of u)) \<subseteq> set ''0123456789abcdef''"
    using hex_of_chars [of u] by (rule subset_trans)
  from upper_hex [OF h] show "length (upper (take 8 (hex_of u))) = 8"
    by (simp add: hex_of_length)
  from upper_hex [OF h] show "set (upper (take 8 (hex_of u))) \<subseteq> set ''0123456789ABCDEF''"
    by blast
qed

lemma response_ids:
  "map_of (response_data h task r) ''ticket_id'' =
     Some (JStr (take 16 (hex_of (md5_digest h task))))"
  "map_of (response_data h task r) ''ticket_number'' =
     Some (JStr (generate_ticket_number (uuid4 h)))"
  by (simp_all add: response_data_def Let_def)

text \<open>
  C9. When the endpoint builds a response, its \<open>ticket_id\<close> is the first 16 hexadecimal
  digits of the MD5 digest of the (stripped) task text: 16 characters, all lower-case
  hexadecimal digits, the same for the same task text whatever the UUID draw and the
  estimate are. Its \<open>ticket_number\<close> is \<open>TKT-\<close> followed by 8 upper-case hexadecimal
  digits taken from the UUID drawn in that call, and depends on nothing else.
\<close>

theorem C9_ticket_identifiers:
  "(map_of d ''task'' = Some (JStr t) \<and> strip t \<noteq> [] \<and>
    sliceable (get_or (estimate h (strip t)) ''reasoning'' (JStr [])) \<and>
    truthy (get_or (estimate h (strip t)) ''success'' JNull) \<longrightarrow>
      map_of (fst (get_ai_estimate h (Inr (JObj d)))) ''ticket_id'' =
        Some (JStr (take 16 (hex_of (md5_digest h (strip t))))) \<and>
      map_of (fst (get_ai_estimate h (Inr (JObj d)))) ''ticket_number'' =
        Some (JStr (''TKT-'' @ upper (take 8 (hex_of (uuid4 h)))))) \<and>
   length (take 16 (hex_of (md5_digest h task))) = 16 \<and>
   set (take 16 (hex_of (md5_digest h task))) \<subseteq> set ''0123456789abcdef'' \<and>
   length (upper (take 8 (hex_of (uuid4 h)))) = 8 \<and>
   set (upper (take 8 (hex_of (uuid4 h)))) \<subseteq> set ''0123456789ABCDEF'' \<and>
   (md5_digest h = md5_digest h' \<longrightarrow>
      map_of (response_data h task r) ''ticket_id'' =
      map_of (response_data h' task r') ''ticket_id'') \<and>
   (uuid4 h = uuid4 h' \<longrightarrow>
      map_of (response_data h task r) ''ticket_number'' =
      map_of (response_data h' task' r') ''ticket_number'')"
proof (intro conjI impI)
  assume a: "map_of d ''task'' = Some (JStr t) \<and> strip t \<noteq> [] \<and>
    sliceable (get_or (estimate h (strip t)) ''reasoning'' (JStr [])) \<and>
    truthy (get_or (estimate h (strip t)) ''success'' JNull)"
  then have g: "get_ai_estimate h (Inr (JObj d)) =
      (response_data h (strip t) (estimate h (strip t)), 200)"
    by (intro get_ai_estimate_success) simp_all
  show "map_of (fst (get_ai_estimate h (Inr (JObj d)))) ''ticket_id'' =
        Some (JStr (take 16 (hex_of (md5_digest h (strip t)))))"
    by (simp add: g response_ids)
  show "map_of (fst (get_ai_estimate h (Inr (JObj d)))) ''ticket_number'' =
        Some (JStr (''TKT-'' @ upper (take 8 (hex_of (uuid4 h)))))"
    using ticket_number_shape [of "uuid4 h"] by (simp add: g response_ids)
next
  show "length (take 16 (hex_of (md5_digest h task))) = 16"
    using ticket_id_shape by blast
  show "set (take 16 (hex_of (md5_digest h task))) \<subseteq> set ''0123456789abcdef''"
    using ticket_id_shape by blast
  show "length (upper (take 8 (hex_of (uuid4 h)))) = 8"
    using ticket_number_shape by blast
  show "set (upper (take 8 (hex_of (uuid4 h)))) \<subseteq> set ''0123456789ABCDEF''"
    using ticket_number_shape by blast
next
  assume "md5_digest h = md5_digest h'"
  then show "map_of (response_data h task r) ''ticket_id'' =
      map_of (response_data h' task r') ''ticket_id''"
    by (simp add: response_ids)
next
  assume "uuid4 h = uuid4 h'"
  then show "map_of (response_data h task r) ''ticket_number'' =
      map_of (response_data h' task' r') ''ticket_number''"
    by (simp add: response_ids)
qed


theorem C9_ticket_identifiers_witness:
  "map_of (fst (get_ai_estimate (demo_handler (demo_estimator (flaky_client 0 [])))
      (Inr (JObj [(''task'', JStr '' Deploy service '')])))) ''ticket_id'' =
     Some (JStr ''0123456789abcdef'') \<and>
   map_of (fst (get_ai_estimate (demo_handler (demo_estimator (flaky_client 0 [])))
      (Inr (JObj [(''task'', JStr '' Deploy service '')])))) ''ticket_number'' =
     Some (JStr ''TKT-DEADBEEF'')"
proof -
  let ?h = "demo_handler (demo_estimator (flaky_client 0 []))"
  let ?d = "[(''task'', JStr '' Deploy service '')]"
  have e: "estimate ?h (strip '' Deploy service '') = [(''success'', JBool True)]"
    by (simp add: demo_handler_estimate demo_estimate_success)
  have a: "map_of ?d ''task'' = Some (JStr '' Deploy service '')" by simp
  have n: "strip '' Deploy service '' \<noteq> []" by (simp add: strip_deploy)
  have s: "sliceable (get_or (estimate ?h (strip '' Deploy service '')) ''reasoning'' (JStr []))"
    by (simp add: e get_or_def sliceable_def)
  have t: "truthy (get_or (estimate ?h (strip '' Deploy service '')) ''success'' JNull)"
    by (simp add: e get_or_def truthy_def)
  have m: "md5_digest ?h (strip '' Deploy service '') = 0x0123456789abcdeffedcba9876543210"
    by (simp add: demo_handler_def)
  have u: "uuid4 ?h = 0xdeadbeef000040008000000000000001"
    by (simp add: demo_handler_def)
  from C9_ticket_identifiers [of ?d "'' Deploy service ''" ?h] a n s t
  have "map_of (fst (get_ai_estimate ?h (Inr (JObj ?d)))) ''ticket_id'' =
        Some (JStr (take 16 (hex_of (md5_digest ?h (strip '' Deploy service ''))))) \<and>
      map_of (fst (get_ai_estimate ?h (Inr (JObj ?d)))) ''ticket_number'' =
        Some (JStr (''TKT-'' @ upper (take 8 (hex_of (uuid4 ?h)))))"
    by blast
  then show ?thesis
    by (simp only: m u demo_ticket_id demo_ticket_number) simp
qed

section \<open>Normalisation of the decoded response\<close>

lemma validate_wraps:
  "map_of d k = Some (JStr s) \<Longrightarrow>
   k \<in> {''required_access'', ''dependencies'', ''suggested_labels''} \<Longrightarrow>
   map_of (validate_and_format_response d t) k = Some (JArr [JStr s])"
  by (simp add: map_of_validate listify_def)

lemma validate_keeps_lists:
  "map_of d k = Some (JArr xs) \<Longrightarrow>
   map_of (validate_and_format_response d t) k = Some (JArr xs)"
  by (simp add: map_of_validate listify_def)

lemma validate_keeps_absent:
  "map_of d k = None \<Longrightarrow> map_of (validate_and_format_response d t) k = None"
  by (simp add: map_of_validate)

lemma validate_keeps_scalars:
  "k \<in> {''title'', ''estimated_time'', ''priority'', ''complexity_level'', ''reasoning''} \<Longrightarrow>
   map_of (validate_and_format_response d t) k = map_of d k"
  by (auto simp add: map_of_validate)

text \<open>
  C2. The source says of each of the three fields that it is "always an array" after
  normalisation, and the claim concludes that these fields, when present, are sequences.
  Strings are wrapped, lists, absent fields and scalar fields are left as they are (the
  four lemmas above), but a field that is present with another value is left as it is
  too: for the decoded response \<open>{"title": "Fix login bug", "dependencies": null}\<close> the
  result still has \<open>dependencies\<close> null.
\<close>

theorem C2_null_field_not_wrapped:
  "map_of (validate_and_format_response
      [(''title'', JStr ''Fix login bug''), (''dependencies'', JNull)]
      ''Fix login bug on mobile'') ''dependencies'' = Some JNull"
  by (simp add: map_of_validate listify_def)

end
